theory Spec2Isabelle
  imports Complex_Main "HOL-Library.Word" "HOL-Library.Multiset" "HOL-Library.Log_Nat"
begin

unbundle bit_operations_syntax

section \<open>MTFS budget simulator: the projection engine and its analytics\<close>

text \<open>
  A shallow embedding of \<^verbatim>\<open>src/lib/mtfs.js\<close>. The projection engine is modelled twice.
  First over exact reals, for the properties of finite scenarios: IEEE-754 rounding, NaN
  and the infinities are not part of that model. Then over JavaScript numbers with
  \<^verbatim>\<open>NaN\<close> and the infinities (finite values still exact), for the sensitivity analysis
  and the break-even solver, whose results depend on them; on finite scenarios the two
  engines agree. Counts, year indices and start years are integers. A value that may be
  \<^verbatim>\<open>null\<close> or \<^verbatim>\<open>undefined\<close> in the source (everything read through \<^verbatim>\<open>?.\<close> or
  \<^verbatim>\<open>??\<close>) is an \<open>option\<close>, with \<open>None\<close> for the missing value.
\<close>

subsection \<open>Scenario model\<close>

record yearInputs =
  councilTaxIncrease :: real
  payAward :: real
  generalInflation :: real
  socialCareGrowth :: real

text \<open>One entry of \<^verbatim>\<open>overrides\<close>; a driver that is \<^verbatim>\<open>null\<close> is \<open>None\<close>.\<close>

record override =
  ov_enabled :: bool
  ov_councilTaxIncrease :: "real option"
  ov_payAward :: "real option"
  ov_generalInflation :: "real option"
  ov_socialCareGrowth :: "real option"

record fundingShock =
  fs_enabled :: bool
  yearIndex :: int
  amount :: real

record debt =
  debtPrincipal :: "real option"
  debtInterestRate :: "real option"
  annualCapitalFinancing :: "real option"

record pipelineItem =
  name :: string
  p_amount :: real
  startYear :: int
  recurring :: bool
  confidence :: "real option"

record fundingGrowth =
  g_businessRates :: real
  g_revenueSupportGrant :: real
  g_otherGrants :: real

record assumptions =
  baseYear :: int
  previousYearBase :: real
  a_plannedSavings :: real
  a_demandPressures :: real
  currentReserves :: real
  taxBase :: real
  averageBandD :: real
  a_businessRates :: real
  a_revenueSupportGrant :: real
  a_otherGrants :: real
  growth :: fundingGrowth

text \<open>One projection row, with the fields in the order \<^verbatim>\<open>rows.push\<close> writes them.\<close>

record row =
  year :: string
  netBudgetRequirement :: real
  totalFunding :: real
  annualGap :: real
  reservesEnd :: real
  payPriceInflation :: real
  demandPressures :: real
  plannedSavings :: real
  pipelineSavings :: real
  councilTaxRevenue :: real
  businessRates :: real
  revenueSupportGrant :: real
  otherGrants :: real
  debtCost :: real
  shockAmount :: real

subsection \<open>Decimal rendering of integers in template literals\<close>

definition digitChar :: "nat \<Rightarrow> char" where
  "digitChar d = char_of (48 + d)"

function showNat :: "nat \<Rightarrow> string" where
  "showNat n = (if n < 10 then [digitChar n] else showNat (n div 10) @ [digitChar (n mod 10)])"
  by pat_completeness auto
termination
  by (relation "measure (\<lambda>n. n)") auto

declare showNat.simps [simp del]

definition showInt :: "int \<Rightarrow> string" where
  "showInt k = (if k < 0 then CHR ''-'' # showNat (nat (- k)) else showNat (nat k))"

subsection \<open>The projection engine\<close>

text \<open>
  \<^verbatim>\<open>resolveInputsForYear\<close>: \<^verbatim>\<open>overrides?.[index]\<close> is \<^verbatim>\<open>undefined\<close> when the list is
  missing or too short, and then the inputs are returned unchanged.
\<close>

definition orElse :: "'a option \<Rightarrow> 'a \<Rightarrow> 'a" where
  "orElse v d = (case v of None \<Rightarrow> d | Some x \<Rightarrow> x)"

definition lookupIdx :: "'a list option \<Rightarrow> nat \<Rightarrow> 'a option" where
  "lookupIdx xs i =
     (case xs of None \<Rightarrow> None | Some l \<Rightarrow> (if i < length l then Some (l ! i) else None))"

definition resolveInputsForYear :: "yearInputs \<Rightarrow> override list option \<Rightarrow> nat \<Rightarrow> yearInputs" where
  "resolveInputsForYear inputs overrides index =
     (case lookupIdx overrides index of
        None \<Rightarrow> inputs
      | Some ov \<Rightarrow>
          if \<not> ov_enabled ov then inputs
          else \<lparr> councilTaxIncrease = orElse (ov_councilTaxIncrease ov) (councilTaxIncrease inputs),
                 payAward = orElse (ov_payAward ov) (payAward inputs),
                 generalInflation = orElse (ov_generalInflation ov) (generalInflation inputs),
                 socialCareGrowth = orElse (ov_socialCareGrowth ov) (socialCareGrowth inputs) \<rparr>)"

text \<open>
  \<^verbatim>\<open>calcPipelineSavings\<close>: the reducer of \<^verbatim>\<open>(pipeline ?? []).reduce(..., 0)\<close> and the
  left fold that runs it.
\<close>

definition pipelineStep :: "nat \<Rightarrow> real \<Rightarrow> pipelineItem \<Rightarrow> real" where
  "pipelineStep yearIdx acc item =
     (if startYear item > int yearIdx + 1 then acc
      else if \<not> recurring item \<and> startYear item \<noteq> int yearIdx + 1 then acc
      else acc + p_amount item * orElse (confidence item) 1)"

definition calcPipelineSavings :: "pipelineItem list option \<Rightarrow> nat \<Rightarrow> real" where
  "calcPipelineSavings pipeline yearIdx = foldl (pipelineStep yearIdx) 0 (orElse pipeline [])"

text \<open>
  The body of the loop of \<^verbatim>\<open>computeProjections\<close> for year index \<open>i\<close>: it reads
  \<^verbatim>\<open>previousBase\<close> and \<^verbatim>\<open>cumulativeGap\<close> and returns the row it pushes together with
  the updated \<^verbatim>\<open>cumulativeGap\<close>.
\<close>

definition yearStep ::
  "yearInputs \<Rightarrow> override list option \<Rightarrow> fundingShock option \<Rightarrow> debt option \<Rightarrow> assumptions \<Rightarrow>
   pipelineItem list option \<Rightarrow> nat \<Rightarrow> real \<Rightarrow> real \<Rightarrow> row \<times> real" where
  "yearStep inputs overrides shock dbt a pipeline i previousBase cumulativeGap =
     (let yi = resolveInputsForYear inputs overrides i;
          yr = baseYear a + int i + 1;
          ppi = previousBase * ((payAward yi + generalInflation yi) / 100);
          dp = a_demandPressures a * (1 + socialCareGrowth yi / 100) ^ i;
          baseSavings = a_plannedSavings a;
          ps = calcPipelineSavings pipeline i;
          planned = baseSavings + ps;
          dc = orElse (Option.bind dbt debtPrincipal) 0
                 * (orElse (Option.bind dbt debtInterestRate) 0 / 100)
               + orElse (Option.bind dbt annualCapitalFinancing) 0;
          nbr = previousBase + ppi + dp + dc - planned;
          ctr = taxBase a * averageBandD a * (1 + councilTaxIncrease yi / 100) ^ (i + 1);
          br = a_businessRates a * (1 + g_businessRates (growth a) / 100) ^ i;
          rsg = a_revenueSupportGrant a * (1 + g_revenueSupportGrant (growth a) / 100) ^ i;
          og = a_otherGrants a * (1 + g_otherGrants (growth a) / 100) ^ i;
          baseFunding = ctr + br + rsg + og;
          sa = (case shock of
                  None \<Rightarrow> 0
                | Some s \<Rightarrow> if fs_enabled s \<and> yearIndex s = int i then amount s else 0);
          tf = baseFunding + sa;
          gap = nbr - tf;
          cumulativeGap' = cumulativeGap + gap;
          re = currentReserves a - cumulativeGap'
      in (\<lparr> year = ''Y'' @ showNat (i + 1) @ '' ('' @ showInt yr @ '')'',
             netBudgetRequirement = nbr, totalFunding = tf, annualGap = gap, reservesEnd = re,
             payPriceInflation = ppi, demandPressures = dp, plannedSavings = planned,
             pipelineSavings = ps, councilTaxRevenue = ctr, businessRates = br,
             revenueSupportGrant = rsg, otherGrants = og, debtCost = dc, shockAmount = sa \<rparr>,
          cumulativeGap'))"

text \<open>
  The loop \<^verbatim>\<open>for (let i = 0; i < 5; i += 1)\<close>, carrying \<^verbatim>\<open>previousBase\<close>,
  \<^verbatim>\<open>cumulativeGap\<close> and the rows pushed so far. \<open>computeProjections\<close> takes its six
  arguments as given: the defaults the source declares for an omitted \<^verbatim>\<open>assumptions\<close> or
  \<^verbatim>\<open>pipeline\<close> are \<open>initialState\<close> and \<open>defaultSavingsPipeline\<close> below, and a pipeline
  of \<^verbatim>\<open>null\<close> is \<open>None\<close>.
\<close>

function projLoop ::
  "yearInputs \<Rightarrow> override list option \<Rightarrow> fundingShock option \<Rightarrow> debt option \<Rightarrow> assumptions \<Rightarrow>
   pipelineItem list option \<Rightarrow> nat \<Rightarrow> real \<Rightarrow> real \<Rightarrow> row list \<Rightarrow> row list" where
  "projLoop inputs overrides shock dbt a pipeline i previousBase cumulativeGap rows =
     (if i < 5 then
        (case yearStep inputs overrides shock dbt a pipeline i previousBase cumulativeGap of
           (r, cumulativeGap') \<Rightarrow>
             projLoop inputs overrides shock dbt a pipeline (i + 1)
               (netBudgetRequirement r) cumulativeGap' (rows @ [r]))
      else rows)"
  by pat_completeness auto
termination
  by (relation "measure (\<lambda>(inputs, overrides, shock, dbt, a, pipeline, i, pb, cg, rows). 5 - i)") auto

declare projLoop.simps [simp del]

definition computeProjections ::
  "yearInputs \<Rightarrow> override list option \<Rightarrow> fundingShock option \<Rightarrow> debt option \<Rightarrow> assumptions \<Rightarrow>
   pipelineItem list option \<Rightarrow> row list" where
  "computeProjections inputs overrides shock dbt a pipeline =
     projLoop inputs overrides shock dbt a pipeline 0 (previousYearBase a) 0 []"

subsection \<open>The default scenario of the source\<close>

definition initialState :: assumptions where
  "initialState =
     \<lparr> baseYear = 2026, previousYearBase = 200000000, a_plannedSavings = 10000000,
       a_demandPressures = 14000000, currentReserves = 45000000, taxBase = 120000,
       averageBandD = 1850, a_businessRates = 62000000, a_revenueSupportGrant = 18000000,
       a_otherGrants = 26000000,
       growth = \<lparr> g_businessRates = 8 / 10, g_revenueSupportGrant = - (18 / 10),
                  g_otherGrants = 4 / 10 \<rparr> \<rparr>"

definition baseline :: yearInputs where
  "baseline = \<lparr> councilTaxIncrease = 3, payAward = 4, generalInflation = 3,
                socialCareGrowth = 45 / 10 \<rparr>"

definition defaultOverrides :: "override list" where
  "defaultOverrides =
     replicate 5 \<lparr> ov_enabled = False, ov_councilTaxIncrease = None, ov_payAward = None,
                   ov_generalInflation = None, ov_socialCareGrowth = None \<rparr>"

definition defaultFundingShock :: fundingShock where
  "defaultFundingShock = \<lparr> fs_enabled = False, yearIndex = 0, amount = - 5000000 \<rparr>"

definition defaultDebt :: debt where
  "defaultDebt = \<lparr> debtPrincipal = Some 120000000, debtInterestRate = Some (42 / 10),
                   annualCapitalFinancing = Some 6500000 \<rparr>"

definition defaultSavingsPipeline :: "pipelineItem list" where
  "defaultSavingsPipeline =
     [ \<lparr> name = ''Digital channel shift'', p_amount = 2000000, startYear = 1,
         recurring = True, confidence = Some (7 / 10) \<rparr>,
       \<lparr> name = ''Commissioning re-tender'', p_amount = 3500000, startYear = 2,
         recurring = True, confidence = Some (55 / 100) \<rparr>,
       \<lparr> name = ''Asset rationalisation'', p_amount = 4000000, startYear = 1,
         recurring = False, confidence = Some (5 / 10) \<rparr> ]"

definition defaultRows :: "row list" where
  "defaultRows = computeProjections baseline (Some defaultOverrides) (Some defaultFundingShock)
      (Some defaultDebt) initialState (Some defaultSavingsPipeline)"

subsection \<open>Specification predicates\<close>

text \<open>The reserve balance of every row is the starting reserves less the gaps so far.\<close>

definition reservesTrack :: "assumptions \<Rightarrow> row list \<Rightarrow> bool" where
  "reservesTrack a rows \<longleftrightarrow>
     (\<forall>k<length rows. reservesEnd (rows ! k) =
        currentReserves a - sum_list (map annualGap (take (Suc k) rows)))"

subsection \<open>The loop in closed form\<close>

text \<open>
  \<open>loopState i\<close> is the pair of \<^verbatim>\<open>previousBase\<close> and \<^verbatim>\<open>cumulativeGap\<close> on entry to
  iteration \<open>i\<close>, and \<open>rowAt i\<close> the row that iteration pushes.
\<close>

fun loopState ::
  "yearInputs \<Rightarrow> override list option \<Rightarrow> fundingShock option \<Rightarrow> debt option \<Rightarrow> assumptions \<Rightarrow>
   pipelineItem list option \<Rightarrow> nat \<Rightarrow> real \<times> real" where
  "loopState inputs overrides shock dbt a pipeline 0 = (previousYearBase a, 0)"
| "loopState inputs overrides shock dbt a pipeline (Suc i) =
     (case loopState inputs overrides shock dbt a pipeline i of
        (previousBase, cumulativeGap) \<Rightarrow>
          (case yearStep inputs overrides shock dbt a pipeline i previousBase cumulativeGap of
             (r, cumulativeGap') \<Rightarrow> (netBudgetRequirement r, cumulativeGap')))"

definition rowAt ::
  "yearInputs \<Rightarrow> override list option \<Rightarrow> fundingShock option \<Rightarrow> debt option \<Rightarrow> assumptions \<Rightarrow>
   pipelineItem list option \<Rightarrow> nat \<Rightarrow> row" where
  "rowAt inputs overrides shock dbt a pipeline i =
     (case loopState inputs overrides shock dbt a pipeline i of
        (previousBase, cumulativeGap) \<Rightarrow>
          fst (yearStep inputs overrides shock dbt a pipeline i previousBase cumulativeGap))"

subsection \<open>Funding shock switched on and off\<close>

text \<open>
  The two shocks the frame property compares: the same amount, targeted at year index \<open>k\<close>,
  enabled and disabled. \<open>sameOutsideFundingGapReserves\<close> says that two rows agree on every
  field other than \<open>totalFunding\<close>, \<open>annualGap\<close> and \<open>reservesEnd\<close>.
\<close>

definition shockOn :: "fundingShock \<Rightarrow> nat \<Rightarrow> fundingShock" where
  "shockOn s k = s\<lparr>fs_enabled := True, yearIndex := int k\<rparr>"

definition shockOff :: "fundingShock \<Rightarrow> nat \<Rightarrow> fundingShock" where
  "shockOff s k = s\<lparr>fs_enabled := False, yearIndex := int k\<rparr>"

definition sameOutsideFundingGapReserves :: "row \<Rightarrow> row \<Rightarrow> bool" where
  "sameOutsideFundingGapReserves r r' \<longleftrightarrow>
     r'\<lparr>totalFunding := totalFunding r, annualGap := annualGap r, reservesEnd := reservesEnd r\<rparr> = r"

definition shockedRows :: "nat \<Rightarrow> row list" where
  "shockedRows k = computeProjections baseline (Some defaultOverrides)
      (Some (shockOn defaultFundingShock k)) (Some defaultDebt) initialState
      (Some defaultSavingsPipeline)"

definition unshockedRows :: "nat \<Rightarrow> row list" where
  "unshockedRows k = computeProjections baseline (Some defaultOverrides)
      (Some (shockOff defaultFundingShock k)) (Some defaultDebt) initialState
      (Some defaultSavingsPipeline)"

subsection \<open>Pipeline items that count in a year\<close>

text \<open>
  The items the specification counts for year index \<open>i\<close>: recurring with a start year of at
  most \<open>i + 1\<close>, or one-off with a start year of exactly \<open>i + 1\<close>.
\<close>

definition eligible :: "nat \<Rightarrow> pipelineItem \<Rightarrow> bool" where
  "eligible i item \<longleftrightarrow>
     (recurring item \<and> startYear item \<le> int i + 1) \<or>
     (\<not> recurring item \<and> startYear item = int i + 1)"

subsection \<open>JavaScript numbers with NaN and the infinities\<close>

text \<open>
  The sensitivity analysis and the break-even solver end in a test on a number
  (\<^verbatim>\<open>gap > 0\<close>) or in a difference of two numbers, and both behave differently when the
  number is \<^verbatim>\<open>NaN\<close> or infinite, which a form field of the application can supply. For
  them the engine is read once more over \<open>jsnum\<close>: a finite value (an exact real, with one
  zero and no rounding), \<^verbatim>\<open>Infinity\<close>, \<^verbatim>\<open>-Infinity\<close> or \<^verbatim>\<open>NaN\<close>, with the arithmetic of
  IEEE 754 on the special values. The engine divides by the literal 100 only, so the
  sign of a zero cannot be observed.
\<close>

datatype jsnum = Fin real | PInf | NInf | NaN

fun isFin :: "jsnum \<Rightarrow> bool" where
  "isFin (Fin a) = True"
| "isFin x = False"

fun jpos :: "jsnum \<Rightarrow> bool" where
  "jpos (Fin a) = (a > 0)"
| "jpos PInf = True"
| "jpos x = False"

fun jneg :: "jsnum \<Rightarrow> jsnum" where
  "jneg (Fin a) = Fin (- a)"
| "jneg PInf = NInf"
| "jneg NInf = PInf"
| "jneg NaN = NaN"

fun jadd :: "jsnum \<Rightarrow> jsnum \<Rightarrow> jsnum" where
  "jadd (Fin a) (Fin b) = Fin (a + b)"
| "jadd NaN y = NaN"
| "jadd x NaN = NaN"
| "jadd PInf NInf = NaN"
| "jadd NInf PInf = NaN"
| "jadd PInf y = PInf"
| "jadd x PInf = PInf"
| "jadd NInf y = NInf"
| "jadd x NInf = NInf"

definition jsub :: "jsnum \<Rightarrow> jsnum \<Rightarrow> jsnum" where
  "jsub x y = jadd x (jneg y)"

text \<open>An infinity times zero is \<^verbatim>\<open>NaN\<close>; otherwise the signs multiply.\<close>

fun jmul :: "jsnum \<Rightarrow> jsnum \<Rightarrow> jsnum" where
  "jmul (Fin a) (Fin b) = Fin (a * b)"
| "jmul NaN y = NaN"
| "jmul x NaN = NaN"
| "jmul (Fin a) y = (if a = 0 then NaN else if (a > 0) = jpos y then PInf else NInf)"
| "jmul x (Fin b) = (if b = 0 then NaN else if jpos x = (b > 0) then PInf else NInf)"
| "jmul PInf y = y"
| "jmul NInf PInf = NInf"
| "jmul NInf NInf = PInf"

text \<open>\<^verbatim>\<open>x / 100\<close>.\<close>

fun over100 :: "jsnum \<Rightarrow> jsnum" where
  "over100 (Fin a) = Fin (a / 100)"
| "over100 x = x"

text \<open>\<^verbatim>\<open>Math.pow(x, n)\<close> for a loop index \<open>n\<close>: 1 for \<open>n = 0\<close>, whatever \<open>x\<close> is.\<close>

fun jpow :: "jsnum \<Rightarrow> nat \<Rightarrow> jsnum" where
  "jpow x 0 = Fin 1"
| "jpow (Fin a) n = Fin (a ^ n)"
| "jpow PInf n = PInf"
| "jpow NInf n = (if odd n then NInf else PInf)"
| "jpow NaN n = NaN"

text \<open>\<^verbatim>\<open>x > y\<close> and \<^verbatim>\<open>x <= y\<close>: both false when either side is \<^verbatim>\<open>NaN\<close>.\<close>

fun jgt :: "jsnum \<Rightarrow> jsnum \<Rightarrow> bool" where
  "jgt (Fin a) (Fin b) = (a > b)"
| "jgt NaN y = False"
| "jgt x NaN = False"
| "jgt PInf y = (y \<noteq> PInf)"
| "jgt x PInf = False"
| "jgt x NInf = (x \<noteq> NInf)"
| "jgt NInf y = False"

definition jle :: "jsnum \<Rightarrow> jsnum \<Rightarrow> bool" where
  "jle x y \<longleftrightarrow> x \<noteq> NaN \<and> y \<noteq> NaN \<and> \<not> jgt x y"

subsection \<open>The projection engine over JavaScript numbers\<close>

text \<open>
  The scenario model and \<^verbatim>\<open>computeProjections\<close> with every number a \<open>jsnum\<close>; the names
  are those of the engine above with a \<open>J\<close>. Operators associate as JavaScript reads them,
  to the left.
\<close>

record yearInputsJ =
  councilTaxIncreaseJ :: jsnum
  payAwardJ :: jsnum
  generalInflationJ :: jsnum
  socialCareGrowthJ :: jsnum

record overrideJ =
  ov_enabledJ :: bool
  ov_councilTaxIncreaseJ :: "jsnum option"
  ov_payAwardJ :: "jsnum option"
  ov_generalInflationJ :: "jsnum option"
  ov_socialCareGrowthJ :: "jsnum option"

record fundingShockJ =
  fs_enabledJ :: bool
  yearIndexJ :: int
  amountJ :: jsnum

record debtJ =
  debtPrincipalJ :: "jsnum option"
  debtInterestRateJ :: "jsnum option"
  annualCapitalFinancingJ :: "jsnum option"

record pipelineItemJ =
  nameJ :: string
  p_amountJ :: jsnum
  startYearJ :: int
  recurringJ :: bool
  confidenceJ :: "jsnum option"

record fundingGrowthJ =
  g_businessRatesJ :: jsnum
  g_revenueSupportGrantJ :: jsnum
  g_otherGrantsJ :: jsnum

record assumptionsJ =
  baseYearJ :: int
  previousYearBaseJ :: jsnum
  a_plannedSavingsJ :: jsnum
  a_demandPressuresJ :: jsnum
  currentReservesJ :: jsnum
  taxBaseJ :: jsnum
  averageBandDJ :: jsnum
  a_businessRatesJ :: jsnum
  a_revenueSupportGrantJ :: jsnum
  a_otherGrantsJ :: jsnum
  growthJ :: fundingGrowthJ

record rowJ =
  yearJ :: string
  netBudgetRequirementJ :: jsnum
  totalFundingJ :: jsnum
  annualGapJ :: jsnum
  reservesEndJ :: jsnum
  payPriceInflationJ :: jsnum
  demandPressuresJ :: jsnum
  plannedSavingsJ :: jsnum
  pipelineSavingsJ :: jsnum
  councilTaxRevenueJ :: jsnum
  businessRatesJ :: jsnum
  revenueSupportGrantJ :: jsnum
  otherGrantsJ :: jsnum
  debtCostJ :: jsnum
  shockAmountJ :: jsnum

definition resolveInputsForYearJ :: "yearInputsJ \<Rightarrow> overrideJ list option \<Rightarrow> nat \<Rightarrow> yearInputsJ" where
  "resolveInputsForYearJ inputs overrides index =
     (case lookupIdx overrides index of
        None \<Rightarrow> inputs
      | Some ov \<Rightarrow>
          if \<not> ov_enabledJ ov then inputs
          else \<lparr> councilTaxIncreaseJ = orElse (ov_councilTaxIncreaseJ ov) (councilTaxIncreaseJ inputs),
                 payAwardJ = orElse (ov_payAwardJ ov) (payAwardJ inputs),
                 generalInflationJ = orElse (ov_generalInflationJ ov) (generalInflationJ inputs),
                 socialCareGrowthJ = orElse (ov_socialCareGrowthJ ov) (socialCareGrowthJ inputs) \<rparr>)"

definition pipelineStepJ :: "nat \<Rightarrow> jsnum \<Rightarrow> pipelineItemJ \<Rightarrow> jsnum" where
  "pipelineStepJ yearIdx acc item =
     (if startYearJ item > int yearIdx + 1 then acc
      else if \<not> recurringJ item \<and> startYearJ item \<noteq> int yearIdx + 1 then acc
      else jadd acc (jmul (p_amountJ item) (orElse (confidenceJ item) (Fin 1))))"

definition calcPipelineSavingsJ :: "pipelineItemJ list option \<Rightarrow> nat \<Rightarrow> jsnum" where
  "calcPipelineSavingsJ pipeline yearIdx =
     foldl (pipelineStepJ yearIdx) (Fin 0) (orElse pipeline [])"

definition yearStepJ ::
  "yearInputsJ \<Rightarrow> overrideJ list option \<Rightarrow> fundingShockJ option \<Rightarrow> debtJ option \<Rightarrow> assumptionsJ \<Rightarrow>
   pipelineItemJ list option \<Rightarrow> nat \<Rightarrow> jsnum \<Rightarrow> jsnum \<Rightarrow> rowJ \<times> jsnum" where
  "yearStepJ inputs overrides shock dbt a pipeline i previousBase cumulativeGap =
     (let yi = resolveInputsForYearJ inputs overrides i;
          yr = baseYearJ a + int i + 1;
          ppi = jmul previousBase (over100 (jadd (payAwardJ yi) (generalInflationJ yi)));
          dp = jmul (a_demandPressuresJ a) (jpow (jadd (Fin 1) (over100 (socialCareGrowthJ yi))) i);
          baseSavings = a_plannedSavingsJ a;
          ps = calcPipelineSavingsJ pipeline i;
          planned = jadd baseSavings ps;
          dc = jadd (jmul (orElse (Option.bind dbt debtPrincipalJ) (Fin 0))
                          (over100 (orElse (Option.bind dbt debtInterestRateJ) (Fin 0))))
                    (orElse (Option.bind dbt annualCapitalFinancingJ) (Fin 0));
          nbr = jsub (jadd (jadd (jadd previousBase ppi) dp) dc) planned;
          ctr = jmul (jmul (taxBaseJ a) (averageBandDJ a))
                     (jpow (jadd (Fin 1) (over100 (councilTaxIncreaseJ yi))) (i + 1));
          br = jmul (a_businessRatesJ a) (jpow (jadd (Fin 1) (over100 (g_businessRatesJ (growthJ a)))) i);
          rsg = jmul (a_revenueSupportGrantJ a)
                     (jpow (jadd (Fin 1) (over100 (g_revenueSupportGrantJ (growthJ a)))) i);
          og = jmul (a_otherGrantsJ a) (jpow (jadd (Fin 1) (over100 (g_otherGrantsJ (growthJ a)))) i);
          baseFunding = jadd (jadd (jadd ctr br) rsg) og;
          sa = (case shock of
                  None \<Rightarrow> Fin 0
                | Some s \<Rightarrow> if fs_enabledJ s \<and> yearIndexJ s = int i then amountJ s else Fin 0);
          tf = jadd baseFunding sa;
          gap = jsub nbr tf;
          cumulativeGap' = jadd cumulativeGap gap;
          re = jsub (currentReservesJ a) cumulativeGap'
      in (\<lparr> yearJ = ''Y'' @ showNat (i + 1) @ '' ('' @ showInt yr @ '')'',
             netBudgetRequirementJ = nbr, totalFundingJ = tf, annualGapJ = gap, reservesEndJ = re,
             payPriceInflationJ = ppi, demandPressuresJ = dp, plannedSavingsJ = planned,
             pipelineSavingsJ = ps, councilTaxRevenueJ = ctr, businessRatesJ = br,
             revenueSupportGrantJ = rsg, otherGrantsJ = og, debtCostJ = dc, shockAmountJ = sa \<rparr>,
          cumulativeGap'))"

function projLoopJ ::
  "yearInputsJ \<Rightarrow> overrideJ list option \<Rightarrow> fundingShockJ option \<Rightarrow> debtJ option \<Rightarrow> assumptionsJ \<Rightarrow>
   pipelineItemJ list option \<Rightarrow> nat \<Rightarrow> jsnum \<Rightarrow> jsnum \<Rightarrow> rowJ list \<Rightarrow> rowJ list" where
  "projLoopJ inputs overrides shock dbt a pipeline i previousBase cumulativeGap rows =
     (if i < 5 then
        (case yearStepJ inputs overrides shock dbt a pipeline i previousBase cumulativeGap of
           (r, cumulativeGap') \<Rightarrow>
             projLoopJ inputs overrides shock dbt a pipeline (i + 1)
               (netBudgetRequirementJ r) cumulativeGap' (rows @ [r]))
      else rows)"
  by pat_completeness auto
termination
  by (relation "measure (\<lambda>(inputs, overrides, shock, dbt, a, pipeline, i, pb, cg, rows). 5 - i)") auto

declare projLoopJ.simps [simp del]

definition computeProjectionsJ ::
  "yearInputsJ \<Rightarrow> overrideJ list option \<Rightarrow> fundingShockJ option \<Rightarrow> debtJ option \<Rightarrow> assumptionsJ \<Rightarrow>
   pipelineItemJ list option \<Rightarrow> rowJ list" where
  "computeProjectionsJ inputs overrides shock dbt a pipeline =
     projLoopJ inputs overrides shock dbt a pipeline 0 (previousYearBaseJ a) (Fin 0) []"

text \<open>A scenario of finite numbers, read as a scenario of JavaScript numbers.\<close>

definition inputsJ :: "yearInputs \<Rightarrow> yearInputsJ" where
  "inputsJ x =
     \<lparr> councilTaxIncreaseJ = Fin (councilTaxIncrease x), payAwardJ = Fin (payAward x),
       generalInflationJ = Fin (generalInflation x), socialCareGrowthJ = Fin (socialCareGrowth x) \<rparr>"

definition overrideOfJ :: "override \<Rightarrow> overrideJ" where
  "overrideOfJ ov =
     \<lparr> ov_enabledJ = ov_enabled ov,
       ov_councilTaxIncreaseJ = map_option Fin (ov_councilTaxIncrease ov),
       ov_payAwardJ = map_option Fin (ov_payAward ov),
       ov_generalInflationJ = map_option Fin (ov_generalInflation ov),
       ov_socialCareGrowthJ = map_option Fin (ov_socialCareGrowth ov) \<rparr>"

definition shockOfJ :: "fundingShock \<Rightarrow> fundingShockJ" where
  "shockOfJ s = \<lparr> fs_enabledJ = fs_enabled s, yearIndexJ = yearIndex s, amountJ = Fin (amount s) \<rparr>"

definition debtOfJ :: "debt \<Rightarrow> debtJ" where
  "debtOfJ d =
     \<lparr> debtPrincipalJ = map_option Fin (debtPrincipal d),
       debtInterestRateJ = map_option Fin (debtInterestRate d),
       annualCapitalFinancingJ = map_option Fin (annualCapitalFinancing d) \<rparr>"

definition itemOfJ :: "pipelineItem \<Rightarrow> pipelineItemJ" where
  "itemOfJ item =
     \<lparr> nameJ = name item, p_amountJ = Fin (p_amount item), startYearJ = startYear item,
       recurringJ = recurring item, confidenceJ = map_option Fin (confidence item) \<rparr>"

definition assumptionsOfJ :: "assumptions \<Rightarrow> assumptionsJ" where
  "assumptionsOfJ a =
     \<lparr> baseYearJ = baseYear a, previousYearBaseJ = Fin (previousYearBase a),
       a_plannedSavingsJ = Fin (a_plannedSavings a), a_demandPressuresJ = Fin (a_demandPressures a),
       currentReservesJ = Fin (currentReserves a), taxBaseJ = Fin (taxBase a),
       averageBandDJ = Fin (averageBandD a), a_businessRatesJ = Fin (a_businessRates a),
       a_revenueSupportGrantJ = Fin (a_revenueSupportGrant a), a_otherGrantsJ = Fin (a_otherGrants a),
       growthJ = \<lparr> g_businessRatesJ = Fin (g_businessRates (growth a)),
                   g_revenueSupportGrantJ = Fin (g_revenueSupportGrant (growth a)),
                   g_otherGrantsJ = Fin (g_otherGrants (growth a)) \<rparr> \<rparr>"

definition rowOfJ :: "row \<Rightarrow> rowJ" where
  "rowOfJ r =
     \<lparr> yearJ = year r, netBudgetRequirementJ = Fin (netBudgetRequirement r),
       totalFundingJ = Fin (totalFunding r), annualGapJ = Fin (annualGap r),
       reservesEndJ = Fin (reservesEnd r), payPriceInflationJ = Fin (payPriceInflation r),
       demandPressuresJ = Fin (demandPressures r), plannedSavingsJ = Fin (plannedSavings r),
       pipelineSavingsJ = Fin (pipelineSavings r), councilTaxRevenueJ = Fin (councilTaxRevenue r),
       businessRatesJ = Fin (businessRates r), revenueSupportGrantJ = Fin (revenueSupportGrant r),
       otherGrantsJ = Fin (otherGrants r), debtCostJ = Fin (debtCost r),
       shockAmountJ = Fin (shockAmount r) \<rparr>"

subsection \<open>Sensitivity\<close>

text \<open>
  \<^verbatim>\<open>computeSensitivity\<close>. The computed key \<^verbatim>\<open>[driver.key]\<close> of the object spread is a
  \<open>driverKey\<close>; \<^verbatim>\<open>computeProjections(...)[0]?.annualGap\<close> is \<open>year1Gap\<close>, which is \<open>None\<close>
  (\<^verbatim>\<open>undefined\<close>) when there is no first row.
\<close>

datatype driverKey = CouncilTaxIncrease | PayAward | GeneralInflation | SocialCareGrowth

record driverInfo =
  key :: driverKey
  label :: string

definition drivers :: "driverInfo list" where
  "drivers =
     [ \<lparr> key = CouncilTaxIncrease, label = ''Council Tax %'' \<rparr>,
       \<lparr> key = PayAward, label = ''Pay Award %'' \<rparr>,
       \<lparr> key = GeneralInflation, label = ''General Inflation %'' \<rparr>,
       \<lparr> key = SocialCareGrowth, label = ''Demand Growth %'' \<rparr> ]"

fun getDriver :: "yearInputsJ \<Rightarrow> driverKey \<Rightarrow> jsnum" where
  "getDriver inputs CouncilTaxIncrease = councilTaxIncreaseJ inputs"
| "getDriver inputs PayAward = payAwardJ inputs"
| "getDriver inputs GeneralInflation = generalInflationJ inputs"
| "getDriver inputs SocialCareGrowth = socialCareGrowthJ inputs"

fun setDriver :: "yearInputsJ \<Rightarrow> driverKey \<Rightarrow> jsnum \<Rightarrow> yearInputsJ" where
  "setDriver inputs CouncilTaxIncrease v = inputs\<lparr>councilTaxIncreaseJ := v\<rparr>"
| "setDriver inputs PayAward v = inputs\<lparr>payAwardJ := v\<rparr>"
| "setDriver inputs GeneralInflation v = inputs\<lparr>generalInflationJ := v\<rparr>"
| "setDriver inputs SocialCareGrowth v = inputs\<lparr>socialCareGrowthJ := v\<rparr>"

definition nthOpt :: "'a list \<Rightarrow> nat \<Rightarrow> 'a option" where
  "nthOpt xs i = (if i < length xs then Some (xs ! i) else None)"

definition year1Gap ::
  "yearInputsJ \<Rightarrow> overrideJ list option \<Rightarrow> fundingShockJ option \<Rightarrow> debtJ option \<Rightarrow> assumptionsJ \<Rightarrow>
   pipelineItemJ list option \<Rightarrow> jsnum option" where
  "year1Gap inputs overrides shock dbt a pipeline =
     map_option annualGapJ (nthOpt (computeProjectionsJ inputs overrides shock dbt a pipeline) 0)"

record sensitivity =
  driver :: string
  up :: jsnum
  down :: jsnum

definition computeSensitivity ::
  "yearInputsJ \<Rightarrow> overrideJ list option \<Rightarrow> fundingShockJ option \<Rightarrow> debtJ option \<Rightarrow> assumptionsJ \<Rightarrow>
   pipelineItemJ list option \<Rightarrow> sensitivity list" where
  "computeSensitivity inputs overrides shock dbt a pipeline =
     (let baselineGap = year1Gap inputs overrides shock dbt a pipeline
      in map (\<lambda>d.
           let upInputs = setDriver inputs (key d) (jadd (getDriver inputs (key d)) (Fin 1));
               downInputs = setDriver inputs (key d) (jsub (getDriver inputs (key d)) (Fin 1));
               upGap = year1Gap upInputs overrides shock dbt a pipeline;
               downGap = year1Gap downInputs overrides shock dbt a pipeline
           in \<lparr> driver = label d,
                up = jsub (orElse upGap (Fin 0)) (orElse baselineGap (Fin 0)),
                down = jsub (orElse baselineGap (Fin 0)) (orElse downGap (Fin 0)) \<rparr>) drivers)"

text \<open>
  An override that is enabled and supplies all four drivers (\<^verbatim>\<open>NaN\<close> is not \<^verbatim>\<open>null\<close>, so
  a driver of \<^verbatim>\<open>NaN\<close> counts as supplied), and the statement that every driver is reported
  with \<open>up = 0\<close> and \<open>down = 0\<close>.
\<close>

definition fullOverride :: "overrideJ \<Rightarrow> bool" where
  "fullOverride ov \<longleftrightarrow>
     ov_enabledJ ov \<and> ov_councilTaxIncreaseJ ov \<noteq> None \<and> ov_payAwardJ ov \<noteq> None \<and>
     ov_generalInflationJ ov \<noteq> None \<and> ov_socialCareGrowthJ ov \<noteq> None"

definition allZero :: "sensitivity list \<Rightarrow> bool" where
  "allZero ss \<longleftrightarrow> list_all (\<lambda>s. up s = Fin 0 \<and> down s = Fin 0) ss"

text \<open>
  The default scenario with a full override of year 1, and the same with a previous-year
  base of \<^verbatim>\<open>NaN\<close>.
\<close>

definition fullOverrideExample :: overrideJ where
  "fullOverrideExample =
     \<lparr> ov_enabledJ = True, ov_councilTaxIncreaseJ = Some (Fin 2), ov_payAwardJ = Some (Fin 3),
       ov_generalInflationJ = Some (Fin 2), ov_socialCareGrowthJ = Some (Fin 4) \<rparr>"

definition overriddenSensitivity :: "sensitivity list" where
  "overriddenSensitivity = computeSensitivity (inputsJ baseline) (Some [fullOverrideExample])
      (Some (shockOfJ defaultFundingShock)) (Some (debtOfJ defaultDebt)) (assumptionsOfJ initialState)
      (Some (map itemOfJ defaultSavingsPipeline))"

definition nanBaseSensitivity :: "sensitivity list" where
  "nanBaseSensitivity = computeSensitivity (inputsJ baseline) (Some [fullOverrideExample])
      (Some (shockOfJ defaultFundingShock)) (Some (debtOfJ defaultDebt))
      ((assumptionsOfJ initialState)\<lparr>previousYearBaseJ := NaN\<rparr>)
      (Some (map itemOfJ defaultSavingsPipeline))"

subsection \<open>Break-even solver\<close>

text \<open>
  \<^verbatim>\<open>solveCouncilTaxIncrease\<close>. The loop is written over the function \<open>gapOf\<close> that the
  body calls at each midpoint (the year-1 gap of the engine at that rate, \<open>None\<close> for
  \<^verbatim>\<open>undefined\<close>), so that the early \<^verbatim>\<open>return null\<close> is a branch of the model. The bounds
  start at 0 and 5 and are halved sums of each other, so they are finite.
\<close>

function solveLoop :: "(real \<Rightarrow> jsnum option) \<Rightarrow> nat \<Rightarrow> real \<Rightarrow> real \<Rightarrow> real option \<Rightarrow> real option" where
  "solveLoop gapOf i low high best =
     (if i < 20 then
        (let mid = (low + high) / 2 in
         case gapOf mid of
           None \<Rightarrow> None
         | Some gap \<Rightarrow>
             if jgt gap (Fin 0) then solveLoop gapOf (i + 1) mid high best
             else solveLoop gapOf (i + 1) low mid (Some mid))
      else best)"
  by pat_completeness auto
termination
  by (relation "measure (\<lambda>(gapOf, i, low, high, best). 20 - i)") auto

declare solveLoop.simps [simp del]

definition solveCouncilTaxIncrease ::
  "yearInputsJ \<Rightarrow> overrideJ list option \<Rightarrow> fundingShockJ option \<Rightarrow> debtJ option \<Rightarrow> assumptionsJ \<Rightarrow>
   pipelineItemJ list option \<Rightarrow> real option" where
  "solveCouncilTaxIncrease inputs overrides shock dbt a pipeline =
     solveLoop
       (\<lambda>mid. year1Gap (inputs\<lparr>councilTaxIncreaseJ := Fin mid\<rparr>) overrides shock dbt a pipeline)
       0 0 5 None"

text \<open>
  The midpoints a bisection of \<open>n\<close> steps tests, in order, for a gap function \<open>g\<close>; the last
  of a list of rates whose gap is not greater than 0; and the year-1 gap of the engine
  with a rate substituted as the council-tax driver.
\<close>

fun bisectMids :: "(real \<Rightarrow> jsnum) \<Rightarrow> nat \<Rightarrow> real \<Rightarrow> real \<Rightarrow> real list" where
  "bisectMids g 0 low high = []"
| "bisectMids g (Suc n) low high =
     (let mid = (low + high) / 2 in
      mid # (if jgt (g mid) (Fin 0) then bisectMids g n mid high else bisectMids g n low mid))"

definition lastClosing :: "(real \<Rightarrow> jsnum) \<Rightarrow> real list \<Rightarrow> real option" where
  "lastClosing g mids =
     (case filter (\<lambda>m. \<not> jgt (g m) (Fin 0)) mids of [] \<Rightarrow> None | m # ms \<Rightarrow> Some (last (m # ms)))"

definition year1GapAt ::
  "yearInputsJ \<Rightarrow> overrideJ list option \<Rightarrow> fundingShockJ option \<Rightarrow> debtJ option \<Rightarrow> assumptionsJ \<Rightarrow>
   pipelineItemJ list option \<Rightarrow> real \<Rightarrow> jsnum" where
  "year1GapAt inputs overrides shock dbt a pipeline rate =
     annualGapJ (computeProjectionsJ (inputs\<lparr>councilTaxIncreaseJ := Fin rate\<rparr>) overrides shock dbt a
       pipeline ! 0)"

text \<open>
  A scenario whose year-1 gap is \<open>3 - rate\<close>, and the same with a pay award of \<^verbatim>\<open>NaN\<close>.
\<close>

definition flatAssumptions :: assumptions where
  "flatAssumptions =
     \<lparr> baseYear = 2026, previousYearBase = 100, a_plannedSavings = 0, a_demandPressures = 3,
       currentReserves = 10, taxBase = 1, averageBandD = 100, a_businessRates = 0,
       a_revenueSupportGrant = 0, a_otherGrants = 0,
       growth = \<lparr> g_businessRates = 0, g_revenueSupportGrant = 0, g_otherGrants = 0 \<rparr> \<rparr>"

definition flatInputs :: yearInputs where
  "flatInputs = \<lparr> councilTaxIncrease = 0, payAward = 0, generalInflation = 0, socialCareGrowth = 0 \<rparr>"

definition nanPayInputs :: yearInputsJ where
  "nanPayInputs = (inputsJ flatInputs)\<lparr>payAwardJ := NaN\<rparr>"

subsection \<open>Configuration validator\<close>

text \<open>
  The payload of \<^verbatim>\<open>validateConfig\<close> is what \<^verbatim>\<open>JSON.parse\<close> returns. \<open>truthy\<close> and
  \<open>typeof\<close> are JavaScript's: \<^verbatim>\<open>null\<close> and arrays have type \<^verbatim>\<open>"object"\<close>, and 0, the
  empty string, \<^verbatim>\<open>false\<close> and \<^verbatim>\<open>null\<close> are falsy. An object is the list of its
  properties (distinct keys); reading a property that is missing, or any named property of
  an array, gives \<^verbatim>\<open>undefined\<close>, here \<open>None\<close>.
\<close>

datatype json =
    JNull
  | JBool bool
  | JNum real
  | JStr string
  | JArr "json list"
  | JObj "(string \<times> json) list"

fun truthy :: "json \<Rightarrow> bool" where
  "truthy JNull = False"
| "truthy (JBool b) = b"
| "truthy (JNum x) = (x \<noteq> 0)"
| "truthy (JStr s) = (s \<noteq> [])"
| "truthy (JArr xs) = True"
| "truthy (JObj kvs) = True"

fun typeof :: "json \<Rightarrow> string" where
  "typeof JNull = ''object''"
| "typeof (JBool b) = ''boolean''"
| "typeof (JNum x) = ''number''"
| "typeof (JStr s) = ''string''"
| "typeof (JArr xs) = ''object''"
| "typeof (JObj kvs) = ''object''"

fun getProp :: "json \<Rightarrow> string \<Rightarrow> json option" where
  "getProp (JObj kvs) k = map_of kvs k"
| "getProp v k = None"

record validation =
  valid :: bool

text \<open>The test \<^verbatim>\<open>data.f && typeof data.f !== "object"\<close> on a field.\<close>

definition fieldRejected :: "json option \<Rightarrow> bool" where
  "fieldRejected f = (case f of None \<Rightarrow> False | Some v \<Rightarrow> truthy v \<and> typeof v \<noteq> ''object'')"

definition validateConfig :: "json \<Rightarrow> validation" where
  "validateConfig data =
     (if \<not> truthy data \<or> typeof data \<noteq> ''object'' then \<lparr> valid = False \<rparr>
      else if fieldRejected (getProp data ''assumptions'') then \<lparr> valid = False \<rparr>
      else if fieldRejected (getProp data ''inputs'') then \<lparr> valid = False \<rparr>
      else \<lparr> valid = True \<rparr>)"

text \<open>
  The acceptance condition in the words of the specification: a structured record whose
  \<open>assumptions\<close> and \<open>inputs\<close>, if present, are structured records.
\<close>

fun isRecord :: "json \<Rightarrow> bool" where
  "isRecord (JObj kvs) = True"
| "isRecord v = False"

definition specAccepts :: "json \<Rightarrow> bool" where
  "specAccepts data \<longleftrightarrow>
     isRecord data \<and>
     (\<forall>k\<in>{''assumptions'', ''inputs''}. case getProp data k of None \<Rightarrow> True | Some v \<Rightarrow> isRecord v)"

text \<open>The kinds of value the validator lets through, by shape.\<close>

fun objectOrArray :: "json \<Rightarrow> bool" where
  "objectOrArray (JObj kvs) = True"
| "objectOrArray (JArr xs) = True"
| "objectOrArray v = False"

fun falsy :: "json \<Rightarrow> bool" where
  "falsy JNull = True"
| "falsy (JBool b) = (\<not> b)"
| "falsy (JNum x) = (x = 0)"
| "falsy (JStr s) = (s = [])"
| "falsy v = False"

definition fieldAccepted :: "json option \<Rightarrow> bool" where
  "fieldAccepted f = (case f of None \<Rightarrow> True | Some v \<Rightarrow> objectOrArray v \<or> falsy v)"

subsection \<open>Stress test\<close>

text \<open>
  \<^verbatim>\<open>mulberry32(seed)\<close> returns a closure over the counter \<^verbatim>\<open>t\<close>; here one call of the
  closure takes the counter and returns the new counter with the value drawn. The seed is
  an integer, and the counter is a JavaScript number: \<^verbatim>\<open>t += 0x6d2b79f5\<close> is an addition of
  doubles that is never wrapped to 32 bits, so the sum is rounded to the nearest double
  (ties to even) once it leaves the range of exact integers. \<open>roundToDouble\<close> is that
  rounding on integers: below \<open>2 ^ 53\<close> in magnitude it changes nothing, above it keeps the
  53 leading bits. The bit operations and \<^verbatim>\<open>Math.imul\<close> work on the low 32 bits of the
  counter, a \<open>32 word\<close>; \<^verbatim>\<open>>>> 0\<close> reads the result as unsigned, and the division by
  \<open>2 ^ 32\<close> is exact.
\<close>

record stress =
  seed :: int
  simulations :: nat
  inflationSigma :: real
  demandSigma :: real
  paySigma :: real
  ctSigma :: real

definition defaultStress :: stress where
  "defaultStress = \<lparr> seed = 12345, simulations = 200, inflationSigma = 8 / 10,
                      demandSigma = 12 / 10, paySigma = 7 / 10, ctSigma = 6 / 10 \<rparr>"

definition roundToDouble :: "int \<Rightarrow> int" where
  "roundToDouble x =
     (let m = \<bar>x\<bar> in
      if m < 2 ^ 53 then x
      else
        (let e = nat (bitlen m) - 53;
             q = m div 2 ^ e;
             r = m mod 2 ^ e;
             q' = (if 2 * r > 2 ^ e \<or> (2 * r = 2 ^ e \<and> odd q) then q + 1 else q)
         in sgn x * (q' * 2 ^ e)))"

definition mulberry32 :: "int \<Rightarrow> int \<times> real" where
  "mulberry32 t =
     (let t' = roundToDouble (t + 0x6d2b79f5);
          w = (word_of_int t' :: 32 word);
          r = (w XOR drop_bit 15 w) * (1 OR w);
          r' = r XOR (r + (r XOR drop_bit 7 r) * (61 OR r))
      in (t', real (unat (r' XOR drop_bit 14 r')) / 4294967296))"

text \<open>
  \<^verbatim>\<open>normalish\<close>: \<^verbatim>\<open>rand() || 1e-9\<close> replaces a draw of 0; the variate is the cosine branch
  of Box-Muller, over the reals.
\<close>

definition orEps :: "real \<Rightarrow> real" where
  "orEps u = (if u = 0 then 1 / 10 ^ 9 else u)"

definition normalOf :: "real \<Rightarrow> real \<Rightarrow> real" where
  "normalOf u v = sqrt (- 2 * ln u) * cos (2 * pi * v)"

definition normalish :: "int \<Rightarrow> int \<times> real" where
  "normalish t =
     (case mulberry32 t of (t1, u0) \<Rightarrow>
      case mulberry32 t1 of (t2, v0) \<Rightarrow>
        (t2, normalOf (orEps u0) (orEps v0)))"

text \<open>
  One pass of the simulation loop: the four variates are drawn in the order the object
  literal lists its fields, then the engine runs. \<open>simOutcome\<close> is the pair pushed to
  \<^verbatim>\<open>results\<close>, with 0 for a missing row.
\<close>

record simResult =
  r_year1Gap :: real
  r_year5Reserves :: real

definition simOutcome :: "row list \<Rightarrow> simResult" where
  "simOutcome sim =
     \<lparr> r_year1Gap = orElse (map_option annualGap (nthOpt sim 0)) 0,
       r_year5Reserves = orElse (map_option reservesEnd (nthOpt sim 4)) 0 \<rparr>"

definition stressStep ::
  "yearInputs \<Rightarrow> override list option \<Rightarrow> fundingShock option \<Rightarrow> debt option \<Rightarrow> assumptions \<Rightarrow>
   pipelineItem list option \<Rightarrow> stress \<Rightarrow> int \<Rightarrow> simResult \<times> int" where
  "stressStep inputs overrides shock dbt a pipeline st t =
     (case normalish t of (t1, n1) \<Rightarrow>
      case normalish t1 of (t2, n2) \<Rightarrow>
      case normalish t2 of (t3, n3) \<Rightarrow>
      case normalish t3 of (t4, n4) \<Rightarrow>
        (let tweak = \<lparr> councilTaxIncrease = councilTaxIncrease inputs + n1 * ctSigma st,
                        payAward = payAward inputs + n2 * paySigma st,
                        generalInflation = generalInflation inputs + n3 * inflationSigma st,
                        socialCareGrowth = socialCareGrowth inputs + n4 * demandSigma st \<rparr>;
             sim = computeProjections tweak overrides shock dbt a pipeline
         in (simOutcome sim, t4)))"

function stressLoop ::
  "yearInputs \<Rightarrow> override list option \<Rightarrow> fundingShock option \<Rightarrow> debt option \<Rightarrow> assumptions \<Rightarrow>
   pipelineItem list option \<Rightarrow> stress \<Rightarrow> nat \<Rightarrow> int \<Rightarrow> simResult list \<Rightarrow> simResult list \<times> int" where
  "stressLoop inputs overrides shock dbt a pipeline st i t results =
     (if i < simulations st then
        (case stressStep inputs overrides shock dbt a pipeline st t of
           (r, t') \<Rightarrow> stressLoop inputs overrides shock dbt a pipeline st (i + 1) t' (results @ [r]))
      else (results, t))"
  by pat_completeness auto
termination
  by (relation "measure (\<lambda>(inputs, overrides, shock, dbt, a, pipeline, st, i, t, results).
        simulations st - i)") auto

declare stressLoop.simps [simp del]

text \<open>
  \<^verbatim>\<open>pick\<close> reads \<^verbatim>\<open>arr[Math.floor(p * (arr.length - 1))]\<close>; an index outside the array
  reads \<^verbatim>\<open>undefined\<close>, here \<open>None\<close>. The comparator \<^verbatim>\<open>(a, b) => a - b\<close> orders numbers
  ascending, and a list of reals has one ascending arrangement, so \<^verbatim>\<open>sort\<close> is \<open>sort\<close>.
  The percentiles are the exact fractions; the doubles 0.1 and 0.9 lie just above them, and
  the rounded product has the same floor for every count below \<open>2 ^ 50\<close>.
\<close>

definition pick :: "real list \<Rightarrow> real \<Rightarrow> real option" where
  "pick arr p =
     (let idx = \<lfloor>p * (real (length arr) - 1)\<rfloor>
      in if 0 \<le> idx \<and> idx < int (length arr) then Some (arr ! nat idx) else None)"

record summary =
  p10Gap :: "real option"
  p50Gap :: "real option"
  p90Gap :: "real option"
  p10Reserves :: "real option"
  p50Reserves :: "real option"
  p90Reserves :: "real option"

definition computeStressTest ::
  "yearInputs \<Rightarrow> override list option \<Rightarrow> fundingShock option \<Rightarrow> debt option \<Rightarrow> assumptions \<Rightarrow>
   pipelineItem list option \<Rightarrow> stress \<Rightarrow> summary" where
  "computeStressTest inputs overrides shock dbt a pipeline st =
     (let results = fst (stressLoop inputs overrides shock dbt a pipeline st 0 (seed st) []);
          sortedGap = sort (map r_year1Gap results);
          sortedRes = sort (map r_year5Reserves results)
      in \<lparr> p10Gap = pick sortedGap (1 / 10), p50Gap = pick sortedGap (5 / 10),
           p90Gap = pick sortedGap (9 / 10), p10Reserves = pick sortedRes (1 / 10),
           p50Reserves = pick sortedRes (5 / 10), p90Reserves = pick sortedRes (9 / 10) \<rparr>)"

definition stressRun ::
  "yearInputs \<Rightarrow> override list option \<Rightarrow> fundingShock option \<Rightarrow> debt option \<Rightarrow> assumptions \<Rightarrow>
   pipelineItem list option \<Rightarrow> stress \<Rightarrow> simResult list \<times> int" where
  "stressRun inputs overrides shock dbt a pipeline st =
     stressLoop inputs overrides shock dbt a pipeline st 0 (seed st) []"

text \<open>
  The draws by position: \<open>advance\<close> is the step one draw makes on the counter,
  \<open>counterAfter s k\<close> the counter after \<open>k\<close> draws from the seed \<open>s\<close>, \<open>uniformAt s k\<close> draw
  number \<open>k\<close> (from 0) of the generator seeded with \<open>s\<close>, \<open>normalAt s k\<close> the variate made of
  draws \<open>k\<close> and \<open>k + 1\<close>, and \<open>tweakAt\<close> the perturbed drivers of simulation \<open>j\<close>, made of
  draws \<open>8 j\<close> to \<open>8 j + 7\<close>.
\<close>

definition advance :: "int \<Rightarrow> int" where
  "advance t = fst (mulberry32 t)"

definition counterAfter :: "int \<Rightarrow> nat \<Rightarrow> int" where
  "counterAfter s k = (advance ^^ k) s"

definition uniformAt :: "int \<Rightarrow> nat \<Rightarrow> real" where
  "uniformAt s k = snd (mulberry32 (counterAfter s k))"

definition normalAt :: "int \<Rightarrow> nat \<Rightarrow> real" where
  "normalAt s k = normalOf (orEps (uniformAt s k)) (orEps (uniformAt s (k + 1)))"

definition tweakAt :: "yearInputs \<Rightarrow> stress \<Rightarrow> nat \<Rightarrow> yearInputs" where
  "tweakAt inputs st j =
     \<lparr> councilTaxIncrease = councilTaxIncrease inputs + normalAt (seed st) (8 * j) * ctSigma st,
       payAward = payAward inputs + normalAt (seed st) (8 * j + 2) * paySigma st,
       generalInflation = generalInflation inputs + normalAt (seed st) (8 * j + 4) * inflationSigma st,
       socialCareGrowth = socialCareGrowth inputs + normalAt (seed st) (8 * j + 6) * demandSigma st \<rparr>"

definition simAt ::
  "yearInputs \<Rightarrow> override list option \<Rightarrow> fundingShock option \<Rightarrow> debt option \<Rightarrow> assumptions \<Rightarrow>
   pipelineItem list option \<Rightarrow> stress \<Rightarrow> nat \<Rightarrow> simResult" where
  "simAt inputs overrides shock dbt a pipeline st j =
     simOutcome (computeProjections (tweakAt inputs st j) overrides shock dbt a pipeline)"

text \<open>A stress run without variation, on the scenario whose year-1 gap is \<open>3 - rate\<close>.\<close>

definition calmStress :: stress where
  "calmStress = \<lparr> seed = 12345, simulations = 3, inflationSigma = 0, demandSigma = 0,
                    paySigma = 0, ctSigma = 0 \<rparr>"

definition flatRows :: "row list" where
  "flatRows = computeProjections flatInputs None None None flatAssumptions None"

subsection \<open>Workbook export\<close>

text \<open>
  \<^verbatim>\<open>buildXlsxBinary\<close>. A cell value is a number or a string (\<^verbatim>\<open>typeof value === "number"\<close>
  decides how it is written). The metadata is the object the caller passes, with every part
  optional as the \<^verbatim>\<open>?.\<close> and \<^verbatim>\<open>??\<close> of the source allow. Two things come from outside the
  file and are parameters: \<open>numStr\<close>, the text JavaScript gives a number in a template
  literal, and \<open>zipSync\<close>, the archive writer of the \<^verbatim>\<open>fflate\<close> library, which is handed
  the parts as an object and writes them in the order of its keys.
\<close>

datatype cell = CNum real | CStr string

record sheet =
  sheetName :: string
  sheetRows :: "cell list list"

record meta =
  m_scenario :: "string option"
  m_timestamp :: "string option"
  m_inputs :: "yearInputs option"
  m_assumptions :: "assumptions option"
  m_fundingShock :: "fundingShock option"
  m_debt :: "debt option"
  m_overrides :: "override list option"
  m_pipeline :: "pipelineItem list option"
  m_stress :: "stress option"
  m_governanceNotes :: "string option list option"

definition cellOf :: "real option \<Rightarrow> cell" where
  "cellOf v = (case v of None \<Rightarrow> CStr [] | Some x \<Rightarrow> CNum x)"

definition textOf :: "string option \<Rightarrow> cell" where
  "textOf v = CStr (orElse v [])"

definition yesNo :: "bool \<Rightarrow> cell" where
  "yesNo b = CStr (if b then ''Yes'' else ''No'')"

definition projectionRows :: "row list \<Rightarrow> cell list list" where
  "projectionRows rows =
     [CStr ''Year'', CStr ''Net Budget Requirement'', CStr ''Total Funding'', CStr ''Annual Gap'',
      CStr ''Reserves End'']
     # map (\<lambda>r. [CStr (year r), CNum (netBudgetRequirement r), CNum (totalFunding r),
                   CNum (annualGap r), CNum (reservesEnd r)]) rows"

definition scenarioSheet :: "meta \<Rightarrow> sheet" where
  "scenarioSheet m =
     \<lparr> sheetName = ''Scenario'',
       sheetRows =
         [ [CStr ''Scenario Summary''],
           [CStr ''Scenario'', textOf (m_scenario m)],
           [CStr ''Generated'', textOf (m_timestamp m)],
           [CStr ''Council Tax %'', cellOf (map_option councilTaxIncrease (m_inputs m))],
           [CStr ''Pay Award %'', cellOf (map_option payAward (m_inputs m))],
           [CStr ''Inflation %'', cellOf (map_option generalInflation (m_inputs m))],
           [CStr ''Demand %'', cellOf (map_option socialCareGrowth (m_inputs m))] ] \<rparr>"

definition assumptionsSheet :: "meta \<Rightarrow> sheet" where
  "assumptionsSheet m =
     \<lparr> sheetName = ''Assumptions'',
       sheetRows =
         [ [CStr ''Core Assumptions''],
           [CStr ''Previous Year Base'', cellOf (map_option previousYearBase (m_assumptions m))],
           [CStr ''Demand Pressures'', cellOf (map_option a_demandPressures (m_assumptions m))],
           [CStr ''Planned Savings'', cellOf (map_option a_plannedSavings (m_assumptions m))],
           [CStr ''Current Reserves'', cellOf (map_option currentReserves (m_assumptions m))],
           [CStr ''Tax Base'', cellOf (map_option taxBase (m_assumptions m))],
           [CStr ''Average Band D'', cellOf (map_option averageBandD (m_assumptions m))],
           [CStr ''Business Rates'', cellOf (map_option a_businessRates (m_assumptions m))],
           [CStr ''Revenue Support Grant'', cellOf (map_option a_revenueSupportGrant (m_assumptions m))],
           [CStr ''Other Grants'', cellOf (map_option a_otherGrants (m_assumptions m))],
           [],
           [CStr ''Funding Shock''],
           [CStr ''Enabled'', yesNo (orElse (map_option fs_enabled (m_fundingShock m)) False)],
           [CStr ''Year Index'', cellOf (map_option (\<lambda>s. real_of_int (yearIndex s)) (m_fundingShock m))],
           [CStr ''Amount'', cellOf (map_option amount (m_fundingShock m))],
           [],
           [CStr ''Debt & Capital Financing''],
           [CStr ''Debt Principal'', cellOf (Option.bind (m_debt m) debtPrincipal)],
           [CStr ''Debt Interest Rate'', cellOf (Option.bind (m_debt m) debtInterestRate)],
           [CStr ''Annual Capital Financing'', cellOf (Option.bind (m_debt m) annualCapitalFinancing)] ] \<rparr>"

definition savingsSheet :: "meta \<Rightarrow> sheet" where
  "savingsSheet m =
     \<lparr> sheetName = ''Savings'',
       sheetRows =
         [CStr ''Savings Pipeline'']
         # [CStr ''Name'', CStr ''Amount'', CStr ''Start Year'', CStr ''Recurring'', CStr ''Confidence'']
         # map (\<lambda>item. [CStr (name item), CNum (p_amount item), CNum (real_of_int (startYear item)),
                          yesNo (recurring item), cellOf (confidence item)])
             (orElse (m_pipeline m) []) \<rparr>"

definition overridesSheet :: "meta \<Rightarrow> sheet" where
  "overridesSheet m =
     \<lparr> sheetName = ''Overrides'',
       sheetRows =
         [CStr ''Per-Year Overrides'']
         # [CStr ''Year'', CStr ''Enabled'', CStr ''CT %'', CStr ''Pay %'', CStr ''Inflation %'',
            CStr ''Demand %'']
         # map (\<lambda>(idx, item). [CStr (''Y'' @ showNat (idx + 1)), yesNo (ov_enabled item),
                                 cellOf (ov_councilTaxIncrease item), cellOf (ov_payAward item),
                                 cellOf (ov_generalInflation item), cellOf (ov_socialCareGrowth item)])
             (enumerate 0 (orElse (m_overrides m) [])) \<rparr>"

definition governanceSheet :: "meta \<Rightarrow> sheet" where
  "governanceSheet m =
     \<lparr> sheetName = ''Governance'',
       sheetRows =
         [CStr ''Governance Notes'']
         # map (\<lambda>(idx, note). [CStr (''Y'' @ showNat (idx + 1)), textOf note])
             (enumerate 0 (orElse (m_governanceNotes m) [])) \<rparr>"

definition stressSheet :: "meta \<Rightarrow> sheet" where
  "stressSheet m =
     \<lparr> sheetName = ''Stress'',
       sheetRows =
         [ [CStr ''Stress Test''],
           [CStr ''Simulations'', cellOf (map_option (\<lambda>s. real (simulations s)) (m_stress m))],
           [CStr ''Seed'', cellOf (map_option (\<lambda>s. real_of_int (seed s)) (m_stress m))] ] \<rparr>"

definition buildSheets :: "row list \<Rightarrow> meta option \<Rightarrow> sheet list" where
  "buildSheets rows mt =
     [\<lparr> sheetName = ''Projections'', sheetRows = projectionRows rows \<rparr>]
     @ (case mt of
          None \<Rightarrow> []
        | Some m \<Rightarrow> [scenarioSheet m, assumptionsSheet m, savingsSheet m, overridesSheet m,
                     governanceSheet m, stressSheet m])"

text \<open>\<^verbatim>\<open>escapeXml\<close>: the five replacements, in the order of the source.\<close>

definition replaceAll :: "char \<Rightarrow> string \<Rightarrow> string \<Rightarrow> string" where
  "replaceAll c r s = concat (map (\<lambda>x. if x = c then r else [x]) s)"

definition escapeXml :: "string \<Rightarrow> string" where
  "escapeXml v =
     replaceAll (CHR 0x27) ''&apos;''
       (replaceAll (CHR 0x22) ''&quot;''
         (replaceAll CHR ''>'' ''&gt;''
           (replaceAll CHR ''<'' ''&lt;''
             (replaceAll CHR ''&'' ''&amp;'' v))))"

text \<open>\<^verbatim>\<open>colLetter\<close>: the loop \<^verbatim>\<open>while (n > 0)\<close> on \<open>n\<close> and the letters found so far.\<close>

function colLoop :: "nat \<Rightarrow> string \<Rightarrow> string" where
  "colLoop n col =
     (if n > 0 then colLoop ((n - 1) div 26) (char_of (65 + (n - 1) mod 26) # col) else col)"
  by pat_completeness auto
termination
  by (relation "measure (\<lambda>(n, col). n)") (auto simp add: div_less_iff_less_mult)

declare colLoop.simps [simp del]

definition colLetter :: "nat \<Rightarrow> string" where
  "colLetter index = colLoop (index + 1) []"

definition xmlDeclaration :: string where
  \<open>xmlDeclaration = ''<?xml version="1.0" encoding="UTF-8" standalone="yes"?>'' @ [CHR 0x0A]\<close>

definition cellXml :: "(real \<Rightarrow> string) \<Rightarrow> nat \<Rightarrow> nat \<Rightarrow> cell \<Rightarrow> string" where
  \<open>cellXml numStr rowIndex colIndex v =
     (let ref = colLetter colIndex @ showNat (rowIndex + 1) in
      case v of
        CNum x \<Rightarrow> ''<c r="'' @ ref @ ''"><v>'' @ numStr x @ ''</v></c>''
      | CStr s \<Rightarrow> ''<c r="'' @ ref @ ''" t="inlineStr"><is><t>'' @ escapeXml s @ ''</t></is></c>'')\<close>

definition buildSheetXml :: "(real \<Rightarrow> string) \<Rightarrow> cell list list \<Rightarrow> string" where
  \<open>buildSheetXml numStr rows =
     concat (map (\<lambda>(rowIndex, r).
       (let cells = concat (map (\<lambda>(colIndex, v). cellXml numStr rowIndex colIndex v) (enumerate 0 r))
        in ''<row r="'' @ showNat (rowIndex + 1) @ ''">'' @ cells @ ''</row>''))
       (enumerate 0 rows))\<close>

record sheetEntry =
  se_index :: nat
  se_name :: string
  se_xml :: string

definition sheetEntries :: "(real \<Rightarrow> string) \<Rightarrow> sheet list \<Rightarrow> sheetEntry list" where
  \<open>sheetEntries numStr sheets =
     map (\<lambda>(index, sh).
       \<lparr> se_index = index, se_name = sheetName sh,
         se_xml = xmlDeclaration @
           ''<worksheet xmlns="http://schemas.openxmlformats.org/spreadsheetml/2006/main">'' @
           ''<sheetData>'' @ buildSheetXml numStr (sheetRows sh) @ ''</sheetData></worksheet>'' \<rparr>)
       (enumerate 0 sheets)\<close>

definition workbookSheets :: "sheetEntry list \<Rightarrow> string" where
  \<open>workbookSheets entries =
     concat (map (\<lambda>e. ''<sheet name="'' @ escapeXml (se_name e) @ ''" sheetId="'' @
                        showNat (se_index e + 1) @ ''" r:id="rId'' @ showNat (se_index e + 1) @ ''"/>'')
       entries)\<close>

definition workbook :: "sheetEntry list \<Rightarrow> string" where
  \<open>workbook entries =
     xmlDeclaration @
     ''<workbook xmlns="http://schemas.openxmlformats.org/spreadsheetml/2006/main" xmlns:r="http://schemas.openxmlformats.org/officeDocument/2006/relationships">'' @
     ''<sheets>'' @ workbookSheets entries @ ''</sheets></workbook>''\<close>

definition rels :: string where
  \<open>rels =
     xmlDeclaration @
     ''<Relationships xmlns="http://schemas.openxmlformats.org/package/2006/relationships">'' @
     ''<Relationship Id="rId1" Type="http://schemas.openxmlformats.org/officeDocument/2006/relationships/officeDocument" Target="xl/workbook.xml"/>'' @
     ''</Relationships>''\<close>

definition workbookRels :: "sheetEntry list \<Rightarrow> string" where
  \<open>workbookRels entries =
     xmlDeclaration @
     ''<Relationships xmlns="http://schemas.openxmlformats.org/package/2006/relationships">'' @
     concat (map (\<lambda>e. ''<Relationship Id="rId'' @ showNat (se_index e + 1) @
        ''" Type="http://schemas.openxmlformats.org/officeDocument/2006/relationships/worksheet" Target="worksheets/sheet'' @
        showNat (se_index e + 1) @ ''.xml"/>'') entries) @
     ''</Relationships>''\<close>

definition contentTypes :: "sheetEntry list \<Rightarrow> string" where
  \<open>contentTypes entries =
     xmlDeclaration @
     ''<Types xmlns="http://schemas.openxmlformats.org/package/2006/content-types">'' @
     ''<Default Extension="rels" ContentType="application/vnd.openxmlformats-package.relationships+xml"/>'' @
     ''<Default Extension="xml" ContentType="application/xml"/>'' @
     ''<Override PartName="/xl/workbook.xml" ContentType="application/vnd.openxmlformats-officedocument.spreadsheetml.sheet.main+xml"/>'' @
     concat (map (\<lambda>e. ''<Override PartName="/xl/worksheets/sheet'' @ showNat (se_index e + 1) @
        ''.xml" ContentType="application/vnd.openxmlformats-officedocument.spreadsheetml.worksheet+xml"/>'')
       entries) @
     ''</Types>''\<close>

text \<open>
  \<^verbatim>\<open>zipEntries\<close> is a JavaScript object: assigning to a key it has keeps the key in place,
  a new key goes last (none of the keys here is an array index). \<^verbatim>\<open>strToU8\<close> gives the
  bytes of a string; a \<open>string\<close> is already a list of bytes.
\<close>

type_synonym bytes = "8 word list"

definition strToU8 :: "string \<Rightarrow> bytes" where
  "strToU8 s = map of_char s"

fun objSet :: "(string \<times> 'v) list \<Rightarrow> string \<Rightarrow> 'v \<Rightarrow> (string \<times> 'v) list" where
  "objSet [] k v = [(k, v)]"
| "objSet ((k', v') # kvs) k v = (if k' = k then (k', v) # kvs else (k', v') # objSet kvs k v)"

definition sheetPartName :: "sheetEntry \<Rightarrow> string" where
  "sheetPartName e = ''xl/worksheets/sheet'' @ showNat (se_index e + 1) @ ''.xml''"

definition zipEntries :: "sheetEntry list \<Rightarrow> (string \<times> bytes) list" where
  "zipEntries entries =
     foldl (\<lambda>obj e. objSet obj (sheetPartName e) (strToU8 (se_xml e)))
       [ (''[Content_Types].xml'', strToU8 (contentTypes entries)),
         (''_rels/.rels'', strToU8 rels),
         (''xl/workbook.xml'', strToU8 (workbook entries)),
         (''xl/_rels/workbook.xml.rels'', strToU8 (workbookRels entries)) ]
       entries"

definition xlsxEntries :: "(real \<Rightarrow> string) \<Rightarrow> row list \<Rightarrow> meta option \<Rightarrow> (string \<times> bytes) list" where
  "xlsxEntries numStr rows mt = zipEntries (sheetEntries numStr (buildSheets rows mt))"

definition buildXlsxBinary ::
  "(real \<Rightarrow> string) \<Rightarrow> ((string \<times> bytes) list \<Rightarrow> 'z) \<Rightarrow> row list \<Rightarrow> meta option \<Rightarrow> 'z" where
  "buildXlsxBinary numStr zipSync rows mt = zipSync (xlsxEntries numStr rows mt)"

text \<open>The four fixed parts of the package and the name of the worksheet part of sheet \<open>i\<close>.\<close>

definition fixedParts :: "string list" where
  "fixedParts = [''[Content_Types].xml'', ''_rels/.rels'', ''xl/workbook.xml'',
                 ''xl/_rels/workbook.xml.rels'']"

definition worksheetPart :: "nat \<Rightarrow> string" where
  "worksheetPart i = ''xl/worksheets/sheet'' @ showNat (i + 1) @ ''.xml''"

text \<open>A number renderer for whole numbers, and a metadata object with nothing in it.\<close>

definition wholeNumber :: "real \<Rightarrow> string" where
  "wholeNumber x = showInt \<lfloor>x\<rfloor>"

definition emptyMeta :: meta where
  "emptyMeta =
     \<lparr> m_scenario = None, m_timestamp = None, m_inputs = None, m_assumptions = None,
       m_fundingShock = None, m_debt = None, m_overrides = None, m_pipeline = None,
       m_stress = None, m_governanceNotes = None \<rparr>"

section \<open>Verification\<close>

subsection \<open>The reserve balance is a running subtraction\<close>

lemma yearStep_cumulative:
  "snd (yearStep inputs overrides shock dbt a pipeline i pb cg) =
     cg + annualGap (fst (yearStep inputs overrides shock dbt a pipeline i pb cg))"
  by (simp add: yearStep_def Let_def)

lemma yearStep_reservesEnd:
  "reservesEnd (fst (yearStep inputs overrides shock dbt a pipeline i pb cg)) =
     currentReserves a - snd (yearStep inputs overrides shock dbt a pipeline i pb cg)"
  by (simp add: yearStep_def Let_def)

lemma projLoop_length:
  "length (projLoop inputs overrides shock dbt a pipeline i pb cg rows) = length rows + (5 - i)"
proof (induction inputs overrides shock dbt a pipeline i pb cg rows rule: projLoop.induct)
  case (1 inputs overrides shock dbt a pipeline i pb cg rows)
  show ?case
  proof (cases "i < 5")
    case True
    obtain r cg' where st: "yearStep inputs overrides shock dbt a pipeline i pb cg = (r, cg')"
      by (cases "yearStep inputs overrides shock dbt a pipeline i pb cg")
    from "1.IH" [OF True st [symmetric]] True st show ?thesis
      by (subst projLoop.simps) simp
  next
    case False
    then show ?thesis by (subst projLoop.simps) simp
  qed
qed

lemma reservesTrack_snoc:
  assumes "reservesTrack a rows"
    and "reservesEnd r = currentReserves a - (sum_list (map annualGap rows) + annualGap r)"
  shows "reservesTrack a (rows @ [r])"
  unfolding reservesTrack_def
proof (intro allI impI)
  fix k assume k: "k < length (rows @ [r])"
  show "reservesEnd ((rows @ [r]) ! k) =
        currentReserves a - sum_list (map annualGap (take (Suc k) (rows @ [r])))"
  proof (cases "k < length rows")
    case True
    with assms(1) show ?thesis by (simp add: reservesTrack_def nth_append)
  next
    case False
    with k have "k = length rows" by simp
    with assms(2) show ?thesis by simp
  qed
qed

lemma projLoop_reservesTrack:
  assumes "cg = sum_list (map annualGap rows)" and "reservesTrack a rows"
  shows "reservesTrack a (projLoop inputs overrides shock dbt a pipeline i pb cg rows)"
  using assms
proof (induction inputs overrides shock dbt a pipeline i pb cg rows rule: projLoop.induct)
  case (1 inputs overrides shock dbt a pipeline i pb cg rows)
  show ?case
  proof (cases "i < 5")
    case True
    obtain r cg' where st: "yearStep inputs overrides shock dbt a pipeline i pb cg = (r, cg')"
      by (cases "yearStep inputs overrides shock dbt a pipeline i pb cg")
    have cg': "cg' = cg + annualGap r"
      using yearStep_cumulative [of inputs overrides shock dbt a pipeline i pb cg] st by simp
    have re: "reservesEnd r = currentReserves a - cg'"
      using yearStep_reservesEnd [of inputs overrides shock dbt a pipeline i pb cg] st by simp
    have a1: "cg' = sum_list (map annualGap (rows @ [r]))"
      using cg' "1.prems"(1) by simp
    have a2: "reservesTrack a (rows @ [r])"
      using reservesTrack_snoc [OF "1.prems"(2)] re cg' "1.prems"(1) by simp
    from "1.IH" [OF True st [symmetric] a1 a2] True st show ?thesis
      by (subst projLoop.simps) simp
  next
    case False
    with "1.prems" show ?thesis by (subst projLoop.simps) simp
  qed
qed

text \<open>
  C1. Every row emitted by \<open>computeProjections\<close> has \<open>reservesEnd\<close> equal to
  \<open>currentReserves\<close> minus the sum of \<open>annualGap\<close> over the rows up to and including
  that row; there are 5 rows, and the last one has \<open>reservesEnd\<close> equal to
  \<open>currentReserves\<close> minus the sum of \<open>annualGap\<close> over all of them.
\<close>

theorem reserves_running_subtraction:
  fixes inputs overrides shock dbt a pipeline
  defines "rows \<equiv> computeProjections inputs overrides shock dbt a pipeline"
  shows "length rows = 5 \<and>
         (\<forall>k<5. reservesEnd (rows ! k) =
            currentReserves a - sum_list (map annualGap (take (k + 1) rows))) \<and>
         reservesEnd (rows ! 4) = currentReserves a - sum_list (map annualGap rows)"
proof -
  have len: "length rows = 5"
    by (simp add: rows_def computeProjections_def projLoop_length)
  have tr: "reservesTrack a rows"
    unfolding rows_def computeProjections_def
    by (rule projLoop_reservesTrack) (simp_all add: reservesTrack_def)
  have every: "\<forall>k<5. reservesEnd (rows ! k) =
            currentReserves a - sum_list (map annualGap (take (k + 1) rows))"
    using tr len by (simp add: reservesTrack_def)
  have "take (4 + 1) rows = rows"
    using len by simp
  moreover have "reservesEnd (rows ! 4) =
      currentReserves a - sum_list (map annualGap (take (4 + 1) rows))"
    using every by simp
  ultimately have "reservesEnd (rows ! 4) = currentReserves a - sum_list (map annualGap rows)"
    by simp
  with len every show ?thesis by blast
qed

theorem reserves_running_subtraction_witness:
  "length defaultRows = 5 \<and>
   reservesEnd (defaultRows ! 2) = 45000000 - sum_list (map annualGap (take 3 defaultRows)) \<and>
   reservesEnd (defaultRows ! 4) = 45000000 - sum_list (map annualGap defaultRows) \<and>
   reservesEnd (defaultRows ! 2) = 303493424"
proof -
  note th = reserves_running_subtraction [of baseline "Some defaultOverrides"
      "Some defaultFundingShock" "Some defaultDebt" initialState "Some defaultSavingsPipeline",
      folded defaultRows_def]
  have cr: "currentReserves initialState = 45000000"
    by (simp add: initialState_def)
  have k2: "reservesEnd (defaultRows ! 2) =
      currentReserves initialState - sum_list (map annualGap (take (2 + 1) defaultRows))"
    using th by simp
  have v: "reservesEnd (defaultRows ! 2) = 303493424"
    by code_simp
  from th k2 v show ?thesis by (simp add: cr)
qed

subsection \<open>The rows in closed form\<close>

lemma projLoop_rowAt:
  assumes "i \<le> 5" and "loopState inputs overrides shock dbt a pipeline i = (pb, cg)"
  shows "projLoop inputs overrides shock dbt a pipeline i pb cg rows =
         rows @ map (rowAt inputs overrides shock dbt a pipeline) [i..<5]"
  using assms
proof (induction inputs overrides shock dbt a pipeline i pb cg rows rule: projLoop.induct)
  case (1 inputs overrides shock dbt a pipeline i pb cg rows)
  show ?case
  proof (cases "i < 5")
    case True
    obtain r cg' where st: "yearStep inputs overrides shock dbt a pipeline i pb cg = (r, cg')"
      by (cases "yearStep inputs overrides shock dbt a pipeline i pb cg")
    have nxt: "loopState inputs overrides shock dbt a pipeline (i + 1) = (netBudgetRequirement r, cg')"
      using "1.prems"(2) st by simp
    have r: "rowAt inputs overrides shock dbt a pipeline i = r"
      using "1.prems"(2) st by (simp add: rowAt_def)
    have "projLoop inputs overrides shock dbt a pipeline (i + 1) (netBudgetRequirement r) cg' (rows @ [r])
          = (rows @ [r]) @ map (rowAt inputs overrides shock dbt a pipeline) [i + 1..<5]"
      using "1.IH" [OF True st [symmetric] _ nxt] True by simp
    moreover have "[i..<5] = i # [i + 1..<5]"
      using True by (simp add: upt_conv_Cons)
    ultimately show ?thesis
      using True st r by (subst projLoop.simps) simp
  next
    case False
    with "1.prems" have "i = 5" by simp
    then show ?thesis by (subst projLoop.simps) simp
  qed
qed

lemma computeProjections_rowAt:
  "computeProjections inputs overrides shock dbt a pipeline =
   map (rowAt inputs overrides shock dbt a pipeline) [0..<5]"
  by (simp add: computeProjections_def projLoop_rowAt)

lemma computeProjections_nth:
  "j < 5 \<Longrightarrow> computeProjections inputs overrides shock dbt a pipeline ! j =
     rowAt inputs overrides shock dbt a pipeline j"
  by (simp add: computeProjections_rowAt del: upt_Suc)

subsection \<open>Frame of the funding shock\<close>

lemma loopState_base_shock:
  "fst (loopState inputs overrides shock dbt a pipeline i) =
   fst (loopState inputs overrides shock' dbt a pipeline i)"
proof (induction i)
  case 0
  show ?case by simp
next
  case (Suc i)
  then show ?case
    by (auto simp add: yearStep_def Let_def split: prod.splits)
qed

lemma loopState_gap_shock:
  "snd (loopState inputs overrides (Some (shockOn s k)) dbt a pipeline i) =
   snd (loopState inputs overrides (Some (shockOff s k)) dbt a pipeline i)
     - (if k < i then amount s else 0)"
proof (induction i)
  case 0
  show ?case by simp
next
  case (Suc i)
  have b: "fst (loopState inputs overrides (Some (shockOn s k)) dbt a pipeline i) =
           fst (loopState inputs overrides (Some (shockOff s k)) dbt a pipeline i)"
    by (rule loopState_base_shock)
  obtain pb cg where on: "loopState inputs overrides (Some (shockOn s k)) dbt a pipeline i = (pb, cg)"
    by (cases "loopState inputs overrides (Some (shockOn s k)) dbt a pipeline i")
  obtain pb' cg' where off: "loopState inputs overrides (Some (shockOff s k)) dbt a pipeline i = (pb', cg')"
    by (cases "loopState inputs overrides (Some (shockOff s k)) dbt a pipeline i")
  from b on off have pb: "pb' = pb" by simp
  from Suc on off have cg: "cg = cg' - (if k < i then amount s else 0)" by simp
  show ?case
    using on off pb cg
    by (auto simp add: yearStep_def Let_def shockOn_def shockOff_def)
qed

lemma rowAt_shock:
  "rowAt inputs overrides (Some (shockOn s k)) dbt a pipeline j =
   (let r = rowAt inputs overrides (Some (shockOff s k)) dbt a pipeline j in
    if j < k then r
    else if j = k then
      r\<lparr>totalFunding := totalFunding r + amount s, annualGap := annualGap r - amount s,
        reservesEnd := reservesEnd r + amount s, shockAmount := amount s\<rparr>
    else r\<lparr>reservesEnd := reservesEnd r + amount s\<rparr>)"
proof -
  have b: "fst (loopState inputs overrides (Some (shockOn s k)) dbt a pipeline j) =
           fst (loopState inputs overrides (Some (shockOff s k)) dbt a pipeline j)"
    by (rule loopState_base_shock)
  obtain pb cg where on: "loopState inputs overrides (Some (shockOn s k)) dbt a pipeline j = (pb, cg)"
    by (cases "loopState inputs overrides (Some (shockOn s k)) dbt a pipeline j")
  obtain pb' cg' where off: "loopState inputs overrides (Some (shockOff s k)) dbt a pipeline j = (pb', cg')"
    by (cases "loopState inputs overrides (Some (shockOff s k)) dbt a pipeline j")
  from b on off have pb: "pb' = pb" by simp
  from loopState_gap_shock [of inputs overrides s k dbt a pipeline j] on off
  have cg: "cg = cg' - (if k < j then amount s else 0)" by simp
  show ?thesis
    using on off pb cg
    by (auto simp add: rowAt_def yearStep_def Let_def shockOn_def shockOff_def)
qed

text \<open>
  C2 (as amended). For a year index \<open>k < 5\<close>, enabling the funding shock at \<open>k\<close> leaves the
  rows before \<open>k\<close> unchanged; in row \<open>k\<close> it adds the shock amount to \<open>totalFunding\<close>, sets
  \<open>shockAmount\<close> (0 in the unshocked run) to the amount, lowers \<open>annualGap\<close> and raises
  \<open>reservesEnd\<close> by it; in the rows after \<open>k\<close> it raises \<open>reservesEnd\<close> by the amount and
  changes nothing else.
\<close>

theorem funding_shock_frame:
  fixes inputs overrides s dbt a pipeline k
  defines "on \<equiv> computeProjections inputs overrides (Some (shockOn s k)) dbt a pipeline"
    and "off \<equiv> computeProjections inputs overrides (Some (shockOff s k)) dbt a pipeline"
  assumes k: "k < 5"
  shows "(\<forall>j<k. on ! j = off ! j) \<and>
         on ! k = (off ! k)\<lparr>totalFunding := totalFunding (off ! k) + amount s,
                            annualGap := annualGap (off ! k) - amount s,
                            reservesEnd := reservesEnd (off ! k) + amount s,
                            shockAmount := amount s\<rparr> \<and>
         shockAmount (off ! k) = 0 \<and>
         (\<forall>j<5. k < j \<longrightarrow> on ! j = (off ! j)\<lparr>reservesEnd := reservesEnd (off ! j) + amount s\<rparr>)"
proof -
  have before: "\<forall>j<k. on ! j = off ! j"
    using k by (simp add: on_def off_def computeProjections_nth rowAt_shock)
  have at: "on ! k = (off ! k)\<lparr>totalFunding := totalFunding (off ! k) + amount s,
                            annualGap := annualGap (off ! k) - amount s,
                            reservesEnd := reservesEnd (off ! k) + amount s,
                            shockAmount := amount s\<rparr>"
    using k by (simp add: on_def off_def computeProjections_nth rowAt_shock Let_def)
  have zero: "shockAmount (off ! k) = 0"
    using k by (simp add: off_def computeProjections_nth rowAt_def yearStep_def Let_def
        shockOff_def split: prod.splits)
  have after: "\<forall>j<5. k < j \<longrightarrow> on ! j = (off ! j)\<lparr>reservesEnd := reservesEnd (off ! j) + amount s\<rparr>"
    by (simp add: on_def off_def computeProjections_nth rowAt_shock Let_def)
  from before at zero after show ?thesis by blast
qed

theorem funding_shock_frame_witness:
  "(1::nat) < 5 \<and>
   shockedRows 1 ! 0 = unshockedRows 1 ! 0 \<and>
   totalFunding (shockedRows 1 ! 1) = totalFunding (unshockedRows 1 ! 1) + (- 5000000) \<and>
   shockAmount (shockedRows 1 ! 1) = - 5000000 \<and>
   reservesEnd (shockedRows 1 ! 3) = reservesEnd (unshockedRows 1 ! 3) + (- 5000000) \<and>
   totalFunding (shockedRows 1 ! 1) = 336795800"
proof -
  have k: "(1::nat) < 5" by simp
  note th = funding_shock_frame [OF k, of baseline "Some defaultOverrides" defaultFundingShock
      "Some defaultDebt" initialState "Some defaultSavingsPipeline",
      folded shockedRows_def unshockedRows_def]
  have am: "amount defaultFundingShock = - 5000000"
    by (simp add: defaultFundingShock_def)
  have r0: "shockedRows 1 ! 0 = unshockedRows 1 ! 0"
    using th by simp
  have r1: "shockedRows 1 ! 1 = (unshockedRows 1 ! 1)\<lparr>
      totalFunding := totalFunding (unshockedRows 1 ! 1) + amount defaultFundingShock,
      annualGap := annualGap (unshockedRows 1 ! 1) - amount defaultFundingShock,
      reservesEnd := reservesEnd (unshockedRows 1 ! 1) + amount defaultFundingShock,
      shockAmount := amount defaultFundingShock\<rparr>"
    using th by simp
  have r3: "shockedRows 1 ! 3 = (unshockedRows 1 ! 3)\<lparr>
      reservesEnd := reservesEnd (unshockedRows 1 ! 3) + amount defaultFundingShock\<rparr>"
    using th by simp
  have v: "totalFunding (shockedRows 1 ! 1) = 336795800"
    by code_simp
  have f1: "totalFunding (shockedRows 1 ! 1) = totalFunding (unshockedRows 1 ! 1) + (- 5000000)"
    by (subst r1) (simp add: am)
  have f2: "shockAmount (shockedRows 1 ! 1) = - 5000000"
    by (subst r1) (simp add: am)
  have f3: "reservesEnd (shockedRows 1 ! 3) = reservesEnd (unshockedRows 1 ! 3) + (- 5000000)"
    by (subst r3) (simp add: am)
  from k r0 f1 f2 f3 v show ?thesis by blast
qed

text \<open>
  With the default scenario and the shock at year index 0, row 0 of the shocked and the
  unshocked run differ in \<open>shockAmount\<close>, a field outside \<open>totalFunding\<close>, \<open>annualGap\<close>
  and \<open>reservesEnd\<close>.
\<close>

theorem funding_shock_only_funding_gap_reserves_counterexample:
  "\<not> sameOutsideFundingGapReserves (shockedRows 0 ! 0) (unshockedRows 0 ! 0) \<and>
   shockAmount (shockedRows 0 ! 0) = - 5000000 \<and> shockAmount (unshockedRows 0 ! 0) = 0"
proof -
  have on: "shockAmount (shockedRows 0 ! 0) = - 5000000"
    by (simp add: shockedRows_def computeProjections_nth rowAt_def yearStep_def Let_def
        shockOn_def defaultFundingShock_def)
  have off: "shockAmount (unshockedRows 0 ! 0) = 0"
    by (simp add: unshockedRows_def computeProjections_nth rowAt_def yearStep_def Let_def
        shockOff_def defaultFundingShock_def)
  have "\<not> sameOutsideFundingGapReserves (shockedRows 0 ! 0) (unshockedRows 0 ! 0)"
  proof
    assume "sameOutsideFundingGapReserves (shockedRows 0 ! 0) (unshockedRows 0 ! 0)"
    then have "shockAmount (unshockedRows 0 ! 0) = shockAmount (shockedRows 0 ! 0)"
      unfolding sameOutsideFundingGapReserves_def
      by (metis row.select_convs(15) row.surjective row.update_convs(3) row.update_convs(4) row.update_convs(5))
    with on off show False by simp
  qed
  with on off show ?thesis by blast
qed

subsection \<open>Pipeline savings of a year\<close>

lemma pipelineStep_foldl:
  "foldl (pipelineStep i) acc items =
   acc + (\<Sum>item\<leftarrow>filter (eligible i) items. p_amount item * orElse (confidence item) 1)"
proof (induction items arbitrary: acc)
  case Nil
  show ?case by simp
next
  case (Cons item items)
  show ?case
    by (simp add: Cons.IH) (auto simp add: pipelineStep_def eligible_def)
qed

lemma rowAt_pipelineSavings:
  "pipelineSavings (rowAt inputs overrides shock dbt a pipeline i) = calcPipelineSavings pipeline i"
  by (simp add: rowAt_def yearStep_def Let_def split: prod.splits)

lemma rowAt_plannedSavings:
  "plannedSavings (rowAt inputs overrides shock dbt a pipeline i) =
   a_plannedSavings a + calcPipelineSavings pipeline i"
  by (simp add: rowAt_def yearStep_def Let_def split: prod.splits)

text \<open>
  C7. For every year index \<open>i < 5\<close>, the \<open>pipelineSavings\<close> of row \<open>i\<close> is the sum of
  amount times confidence over exactly the items that are recurring with \<open>startYear \<le> i + 1\<close>
  or one-off with \<open>startYear = i + 1\<close>, and \<open>plannedSavings\<close> is the baseline plus that sum.
  The factor is the item's confidence whenever it has one (the source reads
  \<^verbatim>\<open>item.confidence ?? 1\<close>). An item with \<open>startYear > i + 1\<close> is not counted: the reducer
  returns its accumulator unchanged.
\<close>

theorem pipeline_savings_by_year:
  fixes inputs overrides shock dbt a pipeline i
  defines "rows \<equiv> computeProjections inputs overrides shock dbt a pipeline"
    and "items \<equiv> orElse pipeline []"
  assumes i: "i < 5"
  shows "pipelineSavings (rows ! i) =
           (\<Sum>item\<leftarrow>filter (eligible i) items. p_amount item * orElse (confidence item) 1) \<and>
         plannedSavings (rows ! i) = a_plannedSavings a + pipelineSavings (rows ! i) \<and>
         (\<forall>item\<in>set items. \<forall>c. confidence item = Some c \<longrightarrow>
            p_amount item * orElse (confidence item) 1 = p_amount item * c) \<and>
         (\<forall>item\<in>set items. startYear item > int i + 1 \<longrightarrow>
            \<not> eligible i item \<and> (\<forall>acc. pipelineStep i acc item = acc))"
proof -
  have ps: "pipelineSavings (rows ! i) =
           (\<Sum>item\<leftarrow>filter (eligible i) items. p_amount item * orElse (confidence item) 1)"
    using i
    by (simp add: rows_def items_def computeProjections_nth rowAt_pipelineSavings
        calcPipelineSavings_def pipelineStep_foldl)
  have pl: "plannedSavings (rows ! i) = a_plannedSavings a + pipelineSavings (rows ! i)"
    using i
    by (simp add: rows_def computeProjections_nth rowAt_pipelineSavings rowAt_plannedSavings)
  have cf: "\<forall>item\<in>set items. \<forall>c. confidence item = Some c \<longrightarrow>
            p_amount item * orElse (confidence item) 1 = p_amount item * c"
    by (simp add: orElse_def)
  have late: "\<forall>item\<in>set items. startYear item > int i + 1 \<longrightarrow>
            \<not> eligible i item \<and> (\<forall>acc. pipelineStep i acc item = acc)"
    by (auto simp add: eligible_def pipelineStep_def)
  from ps pl cf late show ?thesis by blast
qed

theorem pipeline_savings_by_year_witness:
  "(0::nat) < 5 \<and>
   filter (eligible 0) defaultSavingsPipeline = [defaultSavingsPipeline ! 0, defaultSavingsPipeline ! 2] \<and>
   pipelineSavings (defaultRows ! 0) = 2000000 * (7 / 10) + 4000000 * (5 / 10) \<and>
   plannedSavings (defaultRows ! 0) = 10000000 + 3400000 \<and>
   startYear (defaultSavingsPipeline ! 1) > int 0 + 1 \<and>
   \<not> eligible 0 (defaultSavingsPipeline ! 1) \<and>
   pipelineStep 0 5 (defaultSavingsPipeline ! 1) = 5"
proof -
  have k: "(0::nat) < 5" by simp
  note th = pipeline_savings_by_year [OF k, of baseline "Some defaultOverrides"
      "Some defaultFundingShock" "Some defaultDebt" initialState "Some defaultSavingsPipeline",
      folded defaultRows_def]
  have items: "orElse (Some defaultSavingsPipeline) [] = defaultSavingsPipeline"
    by (simp add: orElse_def)
  have f: "filter (eligible 0) defaultSavingsPipeline =
      [defaultSavingsPipeline ! 0, defaultSavingsPipeline ! 2]"
    by (simp add: defaultSavingsPipeline_def eligible_def)
  have "pipelineSavings (defaultRows ! 0) =
      (\<Sum>item\<leftarrow>filter (eligible 0) (orElse (Some defaultSavingsPipeline) []).
         p_amount item * orElse (confidence item) 1)"
    using th by (rule conjunct1)
  also have "\<dots> = 2000000 * (7 / 10) + 4000000 * (5 / 10)"
    unfolding items f by (simp add: defaultSavingsPipeline_def orElse_def)
  finally have ps: "pipelineSavings (defaultRows ! 0) = 2000000 * (7 / 10) + 4000000 * (5 / 10)" .
  have "plannedSavings (defaultRows ! 0) = a_plannedSavings initialState + pipelineSavings (defaultRows ! 0)"
    using th by blast
  then have pl: "plannedSavings (defaultRows ! 0) = 10000000 + 3400000"
    using ps by (simp add: initialState_def)
  have mem: "defaultSavingsPipeline ! 1 \<in> set (orElse (Some defaultSavingsPipeline) [])"
    unfolding items by (simp add: defaultSavingsPipeline_def)
  have late: "startYear (defaultSavingsPipeline ! 1) > int 0 + 1"
    by (simp add: defaultSavingsPipeline_def)
  from th mem late
  have skip: "\<not> eligible 0 (defaultSavingsPipeline ! 1) \<and>
      (\<forall>acc. pipelineStep 0 acc (defaultSavingsPipeline ! 1) = acc)"
    by blast
  then have five: "pipelineStep 0 5 (defaultSavingsPipeline ! 1) = 5"
    by blast
  from k f ps pl late skip five show ?thesis by blast
qed

subsection \<open>Arithmetic of JavaScript numbers\<close>

lemma jpow_Fin: "jpow (Fin a) n = Fin (a ^ n)"
  by (cases n) simp_all

lemma jsub_Fin: "jsub (Fin a) (Fin b) = Fin (a - b)"
  by (simp add: jsub_def)

lemma jsub_self: "jsub g g = (if isFin g then Fin 0 else NaN)"
  by (cases g) (simp_all add: jsub_def)

lemma jsub_NaN: "jsub NaN y = NaN"
  by (simp add: jsub_def)

lemma not_jgt_jle: "x \<noteq> NaN \<Longrightarrow> \<not> jgt x (Fin 0) \<Longrightarrow> jle x (Fin 0)"
  by (simp add: jle_def)

lemma orElse_Fin: "orElse (map_option Fin v) (Fin d) = Fin (orElse v d)"
  by (cases v) (simp_all add: orElse_def)

subsection \<open>The two readings of the engine agree on finite scenarios\<close>

lemma lookupIdx_map: "lookupIdx (map_option (map f) xs) i = map_option f (lookupIdx xs i)"
  by (cases xs) (simp_all add: lookupIdx_def)

lemma resolveInputsForYearJ_finite:
  "resolveInputsForYearJ (inputsJ inputs) (map_option (map overrideOfJ) overrides) i =
   inputsJ (resolveInputsForYear inputs overrides i)"
proof (cases "lookupIdx overrides i")
  case None
  then show ?thesis
    by (simp add: resolveInputsForYearJ_def resolveInputsForYear_def lookupIdx_map)
next
  case (Some ov)
  then show ?thesis
    by (simp add: resolveInputsForYearJ_def resolveInputsForYear_def lookupIdx_map overrideOfJ_def
        inputsJ_def orElse_Fin)
qed

lemma pipelineStepJ_finite:
  "pipelineStepJ i (Fin acc) (itemOfJ item) = Fin (pipelineStep i acc item)"
  by (simp add: pipelineStepJ_def pipelineStep_def itemOfJ_def orElse_Fin)

lemma foldl_pipelineStepJ_finite:
  "foldl (pipelineStepJ i) (Fin acc) (map itemOfJ items) = Fin (foldl (pipelineStep i) acc items)"
  by (induction items arbitrary: acc) (simp_all add: pipelineStepJ_finite)

lemma calcPipelineSavingsJ_finite:
  "calcPipelineSavingsJ (map_option (map itemOfJ) pipeline) i = Fin (calcPipelineSavings pipeline i)"
proof (cases pipeline)
  case None
  then show ?thesis
    by (simp add: calcPipelineSavingsJ_def calcPipelineSavings_def orElse_def)
next
  case (Some items)
  then show ?thesis
    by (simp add: calcPipelineSavingsJ_def calcPipelineSavings_def orElse_def
        foldl_pipelineStepJ_finite)
qed

lemma debtJ_finite:
  "orElse (Option.bind (map_option debtOfJ dbt) debtPrincipalJ) (Fin 0) =
     Fin (orElse (Option.bind dbt debtPrincipal) 0)"
  "orElse (Option.bind (map_option debtOfJ dbt) debtInterestRateJ) (Fin 0) =
     Fin (orElse (Option.bind dbt debtInterestRate) 0)"
  "orElse (Option.bind (map_option debtOfJ dbt) annualCapitalFinancingJ) (Fin 0) =
     Fin (orElse (Option.bind dbt annualCapitalFinancing) 0)"
  by (cases dbt; simp add: debtOfJ_def orElse_Fin; simp add: orElse_def)+

lemma shockJ_finite:
  "(case map_option shockOfJ shock of
      None \<Rightarrow> Fin 0
    | Some s \<Rightarrow> if fs_enabledJ s \<and> yearIndexJ s = int i then amountJ s else Fin 0) =
   Fin (case shock of
          None \<Rightarrow> 0
        | Some s \<Rightarrow> if fs_enabled s \<and> yearIndex s = int i then amount s else 0)"
  by (cases shock) (simp_all add: shockOfJ_def)

lemma yearStepJ_finite:
  "yearStepJ (inputsJ inputs) (map_option (map overrideOfJ) overrides) (map_option shockOfJ shock)
     (map_option debtOfJ dbt) (assumptionsOfJ a) (map_option (map itemOfJ) pipeline) i (Fin pb) (Fin cg) =
   (rowOfJ (fst (yearStep inputs overrides shock dbt a pipeline i pb cg)),
    Fin (snd (yearStep inputs overrides shock dbt a pipeline i pb cg)))"
proof -
  have yi: "resolveInputsForYearJ (inputsJ inputs) (map_option (map overrideOfJ) overrides) i =
            inputsJ (resolveInputsForYear inputs overrides i)"
    by (rule resolveInputsForYearJ_finite)
  show ?thesis
    unfolding yearStepJ_def yearStep_def yi calcPipelineSavingsJ_finite debtJ_finite shockJ_finite
    by (simp add: Let_def inputsJ_def assumptionsOfJ_def rowOfJ_def jpow_Fin jsub_Fin)
qed

lemma projLoopJ_finite:
  "projLoopJ (inputsJ inputs) (map_option (map overrideOfJ) overrides) (map_option shockOfJ shock)
     (map_option debtOfJ dbt) (assumptionsOfJ a) (map_option (map itemOfJ) pipeline) i (Fin pb) (Fin cg)
     (map rowOfJ rows) =
   map rowOfJ (projLoop inputs overrides shock dbt a pipeline i pb cg rows)"
proof (induction inputs overrides shock dbt a pipeline i pb cg rows rule: projLoop.induct)
  case (1 inputs overrides shock dbt a pipeline i pb cg rows)
  show ?case
  proof (cases "i < 5")
    case True
    obtain r cg' where st: "yearStep inputs overrides shock dbt a pipeline i pb cg = (r, cg')"
      by (cases "yearStep inputs overrides shock dbt a pipeline i pb cg")
    have stJ: "yearStepJ (inputsJ inputs) (map_option (map overrideOfJ) overrides)
        (map_option shockOfJ shock) (map_option debtOfJ dbt) (assumptionsOfJ a)
        (map_option (map itemOfJ) pipeline) i (Fin pb) (Fin cg) = (rowOfJ r, Fin cg')"
      by (simp add: yearStepJ_finite st)
    have nb: "netBudgetRequirementJ (rowOfJ r) = Fin (netBudgetRequirement r)"
      by (simp add: rowOfJ_def)
    have ih: "projLoopJ (inputsJ inputs) (map_option (map overrideOfJ) overrides)
        (map_option shockOfJ shock) (map_option debtOfJ dbt) (assumptionsOfJ a)
        (map_option (map itemOfJ) pipeline) (i + 1) (Fin (netBudgetRequirement r)) (Fin cg')
        (map rowOfJ (rows @ [r])) =
      map rowOfJ (projLoop inputs overrides shock dbt a pipeline (i + 1) (netBudgetRequirement r) cg'
        (rows @ [r]))"
      by (rule "1.IH" [OF True st [symmetric]])
    have "projLoopJ (inputsJ inputs) (map_option (map overrideOfJ) overrides)
        (map_option shockOfJ shock) (map_option debtOfJ dbt) (assumptionsOfJ a)
        (map_option (map itemOfJ) pipeline) i (Fin pb) (Fin cg) (map rowOfJ rows) =
      projLoopJ (inputsJ inputs) (map_option (map overrideOfJ) overrides)
        (map_option shockOfJ shock) (map_option debtOfJ dbt) (assumptionsOfJ a)
        (map_option (map itemOfJ) pipeline) (i + 1) (Fin (netBudgetRequirement r)) (Fin cg')
        (map rowOfJ (rows @ [r]))"
      by (subst projLoopJ.simps) (simp add: True stJ nb)
    also note ih
    also have "projLoop inputs overrides shock dbt a pipeline (i + 1) (netBudgetRequirement r) cg'
        (rows @ [r]) = projLoop inputs overrides shock dbt a pipeline i pb cg rows"
      by (subst (2) projLoop.simps) (simp add: True st)
    finally show ?thesis .
  next
    case False
    then show ?thesis
      by (subst projLoopJ.simps, subst projLoop.simps) simp
  qed
qed

lemma computeProjectionsJ_finite:
  "computeProjectionsJ (inputsJ inputs) (map_option (map overrideOfJ) overrides)
     (map_option shockOfJ shock) (map_option debtOfJ dbt) (assumptionsOfJ a)
     (map_option (map itemOfJ) pipeline) =
   map rowOfJ (computeProjections inputs overrides shock dbt a pipeline)"
  using projLoopJ_finite [of inputs overrides shock dbt a pipeline 0 "previousYearBase a" 0 "[]"]
  by (simp add: computeProjectionsJ_def computeProjections_def assumptionsOfJ_def)

subsection \<open>The first row\<close>

lemma projLoopJ_prefix:
  "\<exists>more. projLoopJ inputs overrides shock dbt a pipeline i pb cg rows = rows @ more"
proof (induction inputs overrides shock dbt a pipeline i pb cg rows rule: projLoopJ.induct)
  case (1 inputs overrides shock dbt a pipeline i pb cg rows)
  show ?case
  proof (cases "i < 5")
    case True
    obtain r cg' where st: "yearStepJ inputs overrides shock dbt a pipeline i pb cg = (r, cg')"
      by (cases "yearStepJ inputs overrides shock dbt a pipeline i pb cg")
    from "1.IH" [OF True st [symmetric]] obtain more where
      "projLoopJ inputs overrides shock dbt a pipeline (i + 1) (netBudgetRequirementJ r) cg'
         (rows @ [r]) = (rows @ [r]) @ more"
      by blast
    then have "projLoopJ inputs overrides shock dbt a pipeline i pb cg rows = rows @ (r # more)"
      by (subst projLoopJ.simps) (simp add: True st)
    then show ?thesis by blast
  next
    case False
    then show ?thesis
      by (subst projLoopJ.simps) simp
  qed
qed

lemma computeProjectionsJ_first:
  "\<exists>more. computeProjectionsJ inputs overrides shock dbt a pipeline =
     fst (yearStepJ inputs overrides shock dbt a pipeline 0 (previousYearBaseJ a) (Fin 0)) # more"
proof -
  obtain r cg' where st:
    "yearStepJ inputs overrides shock dbt a pipeline 0 (previousYearBaseJ a) (Fin 0) = (r, cg')"
    by (cases "yearStepJ inputs overrides shock dbt a pipeline 0 (previousYearBaseJ a) (Fin 0)")
  obtain more where
    "projLoopJ inputs overrides shock dbt a pipeline (0 + 1) (netBudgetRequirementJ r) cg' ([] @ [r]) =
       ([] @ [r]) @ more"
    using projLoopJ_prefix by blast
  then have "computeProjectionsJ inputs overrides shock dbt a pipeline = r # more"
    unfolding computeProjectionsJ_def by (subst projLoopJ.simps) (simp add: st)
  then show ?thesis
    by (simp add: st)
qed

lemma year1Gap_first:
  "year1Gap inputs overrides shock dbt a pipeline =
   Some (annualGapJ (fst (yearStepJ inputs overrides shock dbt a pipeline 0 (previousYearBaseJ a) (Fin 0))))"
proof -
  obtain more where "computeProjectionsJ inputs overrides shock dbt a pipeline =
     fst (yearStepJ inputs overrides shock dbt a pipeline 0 (previousYearBaseJ a) (Fin 0)) # more"
    using computeProjectionsJ_first by blast
  then show ?thesis
    by (simp add: year1Gap_def nthOpt_def)
qed

lemma year1Gap_nth:
  "year1Gap inputs overrides shock dbt a pipeline =
   Some (annualGapJ (computeProjectionsJ inputs overrides shock dbt a pipeline ! 0))"
proof -
  obtain more where "computeProjectionsJ inputs overrides shock dbt a pipeline =
     fst (yearStepJ inputs overrides shock dbt a pipeline 0 (previousYearBaseJ a) (Fin 0)) # more"
    using computeProjectionsJ_first by blast
  then show ?thesis
    by (simp add: year1Gap_def nthOpt_def)
qed

subsection \<open>Sensitivity under a full year-1 override\<close>

lemma resolve_fullOverride:
  assumes "lookupIdx overrides i = Some ov" and "fullOverride ov"
  shows "resolveInputsForYearJ inputs overrides i = resolveInputsForYearJ inputs' overrides i"
proof -
  obtain ct pa gi sc where some: "ov_councilTaxIncreaseJ ov = Some ct" "ov_payAwardJ ov = Some pa"
      "ov_generalInflationJ ov = Some gi" "ov_socialCareGrowthJ ov = Some sc" and en: "ov_enabledJ ov"
    using assms(2) unfolding fullOverride_def by blast
  show ?thesis
    unfolding resolveInputsForYearJ_def assms(1) by (simp add: en some orElse_def)
qed

lemma yearStepJ_resolved:
  assumes "resolveInputsForYearJ inputs overrides i = resolveInputsForYearJ inputs' overrides i"
  shows "yearStepJ inputs overrides shock dbt a pipeline i pb cg =
         yearStepJ inputs' overrides shock dbt a pipeline i pb cg"
  unfolding yearStepJ_def assms ..

lemma year1Gap_fullOverride:
  assumes "lookupIdx overrides 0 = Some ov" and "fullOverride ov"
  shows "year1Gap inputs' overrides shock dbt a pipeline = year1Gap inputs overrides shock dbt a pipeline"
  by (simp only: year1Gap_first
      yearStepJ_resolved [OF resolve_fullOverride [OF assms, of inputs' inputs]])

lemma sensitivity_fullOverride:
  assumes "lookupIdx overrides 0 = Some ov" and "fullOverride ov"
  shows "computeSensitivity inputs overrides shock dbt a pipeline =
         map (\<lambda>d. \<lparr> driver = label d,
                     up = jsub (annualGapJ (computeProjectionsJ inputs overrides shock dbt a pipeline ! 0))
                               (annualGapJ (computeProjectionsJ inputs overrides shock dbt a pipeline ! 0)),
                     down = jsub (annualGapJ (computeProjectionsJ inputs overrides shock dbt a pipeline ! 0))
                                 (annualGapJ (computeProjectionsJ inputs overrides shock dbt a pipeline ! 0)) \<rparr>)
           drivers"
proof -
  have same: "year1Gap inputs' overrides shock dbt a pipeline =
      Some (annualGapJ (computeProjectionsJ inputs overrides shock dbt a pipeline ! 0))" for inputs'
    by (rule trans [OF year1Gap_fullOverride [OF assms] year1Gap_nth])
  show ?thesis
    unfolding computeSensitivity_def Let_def same by (simp add: orElse_def)
qed

lemma allZero_map:
  "allZero (map (\<lambda>d. \<lparr> driver = label d, up = u, down = w \<rparr>) drivers) \<longleftrightarrow> u = Fin 0 \<and> w = Fin 0"
  by (simp add: allZero_def drivers_def)

text \<open>
  C10 (as amended). When \<^verbatim>\<open>overrides[0]\<close> exists, is enabled and supplies all four drivers,
  the year-1 gap of the baseline run and of both perturbed runs of every driver is one and
  the same number, and \<open>computeSensitivity\<close> reports for each of the four drivers that
  number minus itself as \<open>up\<close> and as \<open>down\<close>: 0 when the gap is finite, \<^verbatim>\<open>NaN\<close> when it is
  \<^verbatim>\<open>NaN\<close> or infinite.
\<close>

theorem sensitivity_zero_under_full_override:
  fixes inputs overrides shock dbt a pipeline ov
  defines "gap \<equiv> annualGapJ (computeProjectionsJ inputs overrides shock dbt a pipeline ! 0)"
    and "report \<equiv> computeSensitivity inputs overrides shock dbt a pipeline"
  assumes ov: "lookupIdx overrides 0 = Some ov" and full: "fullOverride ov"
  shows "map driver report =
           [''Council Tax %'', ''Pay Award %'', ''General Inflation %'', ''Demand Growth %''] \<and>
         year1Gap inputs overrides shock dbt a pipeline = Some gap \<and>
         (\<forall>d\<in>set drivers.
            year1Gap (setDriver inputs (key d) (jadd (getDriver inputs (key d)) (Fin 1)))
              overrides shock dbt a pipeline = Some gap \<and>
            year1Gap (setDriver inputs (key d) (jsub (getDriver inputs (key d)) (Fin 1)))
              overrides shock dbt a pipeline = Some gap) \<and>
         (\<forall>s\<in>set report. up s = jsub gap gap \<and> down s = jsub gap gap) \<and>
         (isFin gap \<longrightarrow> allZero report) \<and>
         (\<not> isFin gap \<longrightarrow> (\<forall>s\<in>set report. up s = NaN \<and> down s = NaN))"
proof -
  have rep: "report = map (\<lambda>d. \<lparr> driver = label d, up = jsub gap gap, down = jsub gap gap \<rparr>) drivers"
    unfolding report_def gap_def by (rule sensitivity_fullOverride [OF ov full])
  have names: "map driver report =
           [''Council Tax %'', ''Pay Award %'', ''General Inflation %'', ''Demand Growth %'']"
    by (simp add: rep drivers_def)
  have base: "year1Gap inputs overrides shock dbt a pipeline = Some gap"
    unfolding gap_def by (rule year1Gap_nth)
  have pert: "\<forall>d\<in>set drivers.
            year1Gap (setDriver inputs (key d) (jadd (getDriver inputs (key d)) (Fin 1)))
              overrides shock dbt a pipeline = Some gap \<and>
            year1Gap (setDriver inputs (key d) (jsub (getDriver inputs (key d)) (Fin 1)))
              overrides shock dbt a pipeline = Some gap"
  proof -
    have any: "year1Gap inputs' overrides shock dbt a pipeline = Some gap" for inputs'
      by (rule trans [OF year1Gap_fullOverride [OF ov full] base])
    show ?thesis
      by (simp add: any)
  qed
  have diff: "\<forall>s\<in>set report. up s = jsub gap gap \<and> down s = jsub gap gap"
    by (simp add: rep)
  have fin: "isFin gap \<longrightarrow> allZero report"
    unfolding rep allZero_map by (simp add: jsub_self)
  have nan: "\<not> isFin gap \<longrightarrow> (\<forall>s\<in>set report. up s = NaN \<and> down s = NaN)"
    by (simp add: rep jsub_self)
  from names base pert diff fin nan show ?thesis by blast
qed

lemma overridden_gap:
  "annualGapJ (computeProjectionsJ (inputsJ baseline) (Some [fullOverrideExample])
      (Some (shockOfJ defaultFundingShock)) (Some (debtOfJ defaultDebt)) (assumptionsOfJ initialState)
      (Some (map itemOfJ defaultSavingsPipeline)) ! 0) = Fin (- 110300000)"
proof -
  have "year1Gap (inputsJ baseline) (Some [fullOverrideExample])
      (Some (shockOfJ defaultFundingShock)) (Some (debtOfJ defaultDebt)) (assumptionsOfJ initialState)
      (Some (map itemOfJ defaultSavingsPipeline)) = Some (Fin (- 110300000))"
    unfolding year1Gap_first
    by (simp add: yearStepJ_def Let_def resolveInputsForYearJ_def lookupIdx_def fullOverrideExample_def
        orElse_def calcPipelineSavingsJ_def pipelineStepJ_def itemOfJ_def defaultSavingsPipeline_def
        debtOfJ_def defaultDebt_def shockOfJ_def defaultFundingShock_def assumptionsOfJ_def
        initialState_def jsub_Fin)
  then show ?thesis
    by (simp add: year1Gap_nth)
qed

theorem sensitivity_zero_under_full_override_witness:
  "lookupIdx (Some [fullOverrideExample]) 0 = Some fullOverrideExample \<and>
   fullOverride fullOverrideExample \<and>
   isFin (Fin (- 110300000)) \<and>
   allZero overriddenSensitivity \<and>
   map up overriddenSensitivity = [Fin 0, Fin 0, Fin 0, Fin 0] \<and>
   map down overriddenSensitivity = [Fin 0, Fin 0, Fin 0, Fin 0]"
proof -
  have l: "lookupIdx (Some [fullOverrideExample]) 0 = Some fullOverrideExample"
    by (simp add: lookupIdx_def)
  have f: "fullOverride fullOverrideExample"
    by (simp add: fullOverride_def fullOverrideExample_def)
  note th = sensitivity_zero_under_full_override [OF l f, of "inputsJ baseline"
      "Some (shockOfJ defaultFundingShock)" "Some (debtOfJ defaultDebt)" "assumptionsOfJ initialState"
      "Some (map itemOfJ defaultSavingsPipeline)", folded overriddenSensitivity_def,
      unfolded overridden_gap]
  have fin: "isFin (Fin (- 110300000))"
    by simp
  from th fin have z: "allZero overriddenSensitivity"
    by blast
  from th have len: "length (map driver overriddenSensitivity) = 4"
    by simp
  then obtain s1 s2 s3 s4 where ss: "overriddenSensitivity = [s1, s2, s3, s4]"
    by (auto simp add: length_Suc_conv numeral_eq_Suc)
  from z have u: "map up overriddenSensitivity = [Fin 0, Fin 0, Fin 0, Fin 0]"
    and d: "map down overriddenSensitivity = [Fin 0, Fin 0, Fin 0, Fin 0]"
    by (simp_all add: ss allZero_def)
  from l f fin z u d show ?thesis by blast
qed

text \<open>
  With a previous-year base of \<^verbatim>\<open>NaN\<close> and the same full override of year 1, every
  \<open>up\<close> and \<open>down\<close> is \<^verbatim>\<open>NaN\<close>, not 0.
\<close>

theorem sensitivity_nan_under_full_override_counterexample:
  "lookupIdx (Some [fullOverrideExample]) 0 = Some fullOverrideExample \<and>
   fullOverride fullOverrideExample \<and>
   \<not> allZero nanBaseSensitivity \<and>
   map up nanBaseSensitivity = [NaN, NaN, NaN, NaN] \<and>
   map down nanBaseSensitivity = [NaN, NaN, NaN, NaN]"
proof -
  have l: "lookupIdx (Some [fullOverrideExample]) 0 = Some fullOverrideExample"
    by (simp add: lookupIdx_def)
  have f: "fullOverride fullOverrideExample"
    by (simp add: fullOverride_def fullOverrideExample_def)
  have "year1Gap (inputsJ baseline) (Some [fullOverrideExample])
      (Some (shockOfJ defaultFundingShock)) (Some (debtOfJ defaultDebt))
      ((assumptionsOfJ initialState)\<lparr>previousYearBaseJ := NaN\<rparr>)
      (Some (map itemOfJ defaultSavingsPipeline)) = Some NaN"
    unfolding year1Gap_first by (simp add: yearStepJ_def Let_def jsub_NaN)
  then have gap: "annualGapJ (computeProjectionsJ (inputsJ baseline) (Some [fullOverrideExample])
      (Some (shockOfJ defaultFundingShock)) (Some (debtOfJ defaultDebt))
      ((assumptionsOfJ initialState)\<lparr>previousYearBaseJ := NaN\<rparr>)
      (Some (map itemOfJ defaultSavingsPipeline)) ! 0) = NaN"
    by (simp add: year1Gap_nth)
  have rep: "nanBaseSensitivity =
      map (\<lambda>d. \<lparr> driver = label d, up = jsub NaN NaN, down = jsub NaN NaN \<rparr>) drivers"
    unfolding nanBaseSensitivity_def sensitivity_fullOverride [OF l f] gap ..
  have nz: "\<not> allZero nanBaseSensitivity"
    unfolding rep allZero_map by (simp add: jsub_NaN)
  have u: "map up nanBaseSensitivity = [NaN, NaN, NaN, NaN]"
    and d: "map down nanBaseSensitivity = [NaN, NaN, NaN, NaN]"
    by (simp_all add: rep drivers_def jsub_NaN)
  from l f nz u d show ?thesis by blast
qed

subsection \<open>The bisection solver\<close>

lemma length_bisectMids: "length (bisectMids g n low high) = n"
  by (induction n arbitrary: low high) (simp_all add: Let_def)

lemma bisectMids_bracket:
  "low < high \<Longrightarrow> m \<in> set (bisectMids g n low high) \<Longrightarrow> low < m \<and> m < high"
proof (induction n arbitrary: low high)
  case 0
  then show ?case by simp
next
  case (Suc n)
  let ?mid = "(low + high) / 2"
  have mid: "low < ?mid" "?mid < high" using Suc.prems(1) by simp_all
  from Suc.prems(2) consider "m = ?mid"
    | "jgt (g ?mid) (Fin 0)" "m \<in> set (bisectMids g n ?mid high)"
    | "\<not> jgt (g ?mid) (Fin 0)" "m \<in> set (bisectMids g n low ?mid)"
    by (auto simp add: Let_def split: if_splits)
  then show ?case
  proof cases
    case 1
    with mid show ?thesis by simp
  next
    case 2
    from Suc.IH [OF mid(2) 2(2)] mid show ?thesis by simp
  next
    case 3
    from Suc.IH [OF mid(1) 3(2)] mid show ?thesis by simp
  qed
qed

lemma lastClosing_Cons:
  "lastClosing g (m # ms) =
     (case lastClosing g ms of
        None \<Rightarrow> (if jgt (g m) (Fin 0) then None else Some m)
      | Some r \<Rightarrow> Some r)"
  by (auto simp add: lastClosing_def split: list.splits)

lemma lastClosing_Nil: "lastClosing g [] = None"
  by (simp add: lastClosing_def)

lemma lastClosing_None: "lastClosing g ms = None \<longleftrightarrow> (\<forall>m\<in>set ms. jgt (g m) (Fin 0))"
  by (induction ms) (auto simp add: lastClosing_Nil lastClosing_Cons split: option.splits)

lemma lastClosing_smallest:
  assumes "low < high" and "lastClosing g (bisectMids g n low high) = Some r"
  shows "r \<in> set (bisectMids g n low high) \<and> \<not> jgt (g r) (Fin 0) \<and>
         (\<forall>m\<in>set (bisectMids g n low high). \<not> jgt (g m) (Fin 0) \<longrightarrow> r \<le> m)"
  using assms
proof (induction n arbitrary: low high)
  case 0
  then show ?case by (simp add: lastClosing_Nil)
next
  case (Suc n)
  define mid where "mid = (low + high) / 2"
  have mid: "low < mid" "mid < high" using Suc.prems(1) by (simp_all add: mid_def)
  show ?case
  proof (cases "jgt (g mid) (Fin 0)")
    case True
    then have ms: "bisectMids g (Suc n) low high = mid # bisectMids g n mid high"
      by (simp add: Let_def mid_def)
    from Suc.prems(2) [unfolded ms] True have "lastClosing g (bisectMids g n mid high) = Some r"
      by (simp add: lastClosing_Cons split: option.splits)
    from Suc.IH [OF mid(2) this] True show ?thesis
      unfolding ms by auto
  next
    case False
    then have ms: "bisectMids g (Suc n) low high = mid # bisectMids g n low mid"
      by (simp add: Let_def mid_def)
    show ?thesis
    proof (cases "lastClosing g (bisectMids g n low mid)")
      case None
      with Suc.prems(2) [unfolded ms] False have r: "r = mid"
        by (simp add: lastClosing_Cons)
      from None have "\<forall>m\<in>set (bisectMids g n low mid). jgt (g m) (Fin 0)"
        by (simp add: lastClosing_None)
      with r False show ?thesis
        unfolding ms by auto
    next
      case (Some r')
      with Suc.prems(2) [unfolded ms] have r: "r' = r"
        by (simp add: lastClosing_Cons)
      from Some r have "lastClosing g (bisectMids g n low mid) = Some r" by simp
      from Suc.IH [OF mid(1) this]
      have ih: "r \<in> set (bisectMids g n low mid)" "\<not> jgt (g r) (Fin 0)"
        "\<forall>m\<in>set (bisectMids g n low mid). \<not> jgt (g m) (Fin 0) \<longrightarrow> r \<le> m"
        by simp_all
      from bisectMids_bracket [OF mid(1) ih(1)] have "r < mid" by simp
      with ih show ?thesis
        unfolding ms by auto
    qed
  qed
qed

lemma solveLoop_total:
  assumes "i \<le> 20"
  shows "solveLoop (\<lambda>m. Some (g m)) i low high best =
         (case lastClosing g (bisectMids g (20 - i) low high) of None \<Rightarrow> best | Some r \<Rightarrow> Some r)"
  using assms
proof (induction "\<lambda>m. Some (g m)" i low high best rule: solveLoop.induct)
  case (1 i low high best)
  show ?case
  proof (cases "i < 20")
    case True
    let ?mid = "(low + high) / 2"
    from True have suc: "20 - i = Suc (20 - (i + 1))" by simp
    from True have le: "i + 1 \<le> 20" by simp
    show ?thesis
    proof (cases "jgt (g ?mid) (Fin 0)")
      case pos: True
      have "solveLoop (\<lambda>m. Some (g m)) i low high best =
            solveLoop (\<lambda>m. Some (g m)) (i + 1) ?mid high best"
        using True pos by (subst solveLoop.simps) (simp add: Let_def)
      also have "\<dots> = (case lastClosing g (bisectMids g (20 - (i + 1)) ?mid high) of
                         None \<Rightarrow> best | Some r \<Rightarrow> Some r)"
        using "1.hyps"(1) [OF True refl refl pos le] .
      finally show ?thesis
        using pos by (simp only: suc bisectMids.simps Let_def lastClosing_Cons if_True)
          (simp split: option.splits)
    next
      case neg: False
      have "solveLoop (\<lambda>m. Some (g m)) i low high best =
            solveLoop (\<lambda>m. Some (g m)) (i + 1) low ?mid (Some ?mid)"
        using True neg by (subst solveLoop.simps) (simp add: Let_def)
      also have "\<dots> = (case lastClosing g (bisectMids g (20 - (i + 1)) low ?mid) of
                         None \<Rightarrow> Some ?mid | Some r \<Rightarrow> Some r)"
        using "1.hyps"(2) [OF True refl refl neg le] .
      finally show ?thesis
        using neg by (simp only: suc bisectMids.simps Let_def lastClosing_Cons if_False)
          (simp split: option.splits)
    qed
  next
    case False
    with "1.prems" have "i = 20" by simp
    then show ?thesis
      by (subst solveLoop.simps) (simp add: lastClosing_Nil)
  qed
qed

lemma year1Gap_year1GapAt:
  "year1Gap (inputs\<lparr>councilTaxIncreaseJ := Fin rate\<rparr>) overrides shock dbt a pipeline =
   Some (year1GapAt inputs overrides shock dbt a pipeline rate)"
  by (simp add: year1Gap_nth year1GapAt_def)

lemma solveLoop_no_rows:
  "gapOf ((low + high) / 2) = None \<Longrightarrow> i < 20 \<Longrightarrow> solveLoop gapOf i low high best = None"
  by (subst solveLoop.simps) (simp add: Let_def)

lemma solveCouncilTaxIncrease_lastClosing:
  "solveCouncilTaxIncrease inputs overrides shock dbt a pipeline =
   lastClosing (year1GapAt inputs overrides shock dbt a pipeline)
     (bisectMids (year1GapAt inputs overrides shock dbt a pipeline) 20 0 5)"
proof -
  let ?g = "year1GapAt inputs overrides shock dbt a pipeline"
  have "solveCouncilTaxIncrease inputs overrides shock dbt a pipeline =
        solveLoop (\<lambda>m. Some (?g m)) 0 0 5 None"
    by (simp add: solveCouncilTaxIncrease_def year1Gap_year1GapAt)
  also have "\<dots> = (case lastClosing ?g (bisectMids ?g (20 - 0) 0 5) of None \<Rightarrow> None | Some r \<Rightarrow> Some r)"
    by (rule solveLoop_total) simp
  also have "\<dots> = lastClosing ?g (bisectMids ?g 20 0 5)"
    by (simp split: option.splits)
  finally show ?thesis .
qed

lemma year1GapAt_flat:
  "year1GapAt (inputsJ flatInputs) None None None (assumptionsOfJ flatAssumptions) None = (\<lambda>r. Fin (3 - r))"
proof
  fix r
  have "year1Gap ((inputsJ flatInputs)\<lparr>councilTaxIncreaseJ := Fin r\<rparr>) None None None
          (assumptionsOfJ flatAssumptions) None = Some (Fin (3 - r))"
    unfolding year1Gap_first
    by (simp add: yearStepJ_def Let_def resolveInputsForYearJ_def lookupIdx_def
        calcPipelineSavingsJ_def orElse_def inputsJ_def flatInputs_def assumptionsOfJ_def
        flatAssumptions_def jsub_Fin)
  then show "year1GapAt (inputsJ flatInputs) None None None (assumptionsOfJ flatAssumptions) None r =
      Fin (3 - r)"
    by (simp add: year1Gap_year1GapAt)
qed

lemma year1GapAt_nanPay:
  "year1GapAt nanPayInputs None None None (assumptionsOfJ flatAssumptions) None = (\<lambda>r. NaN)"
proof
  fix r
  have "year1Gap (nanPayInputs\<lparr>councilTaxIncreaseJ := Fin r\<rparr>) None None None
          (assumptionsOfJ flatAssumptions) None = Some NaN"
    unfolding year1Gap_first
    by (simp add: yearStepJ_def Let_def resolveInputsForYearJ_def lookupIdx_def
        calcPipelineSavingsJ_def orElse_def nanPayInputs_def inputsJ_def flatInputs_def
        assumptionsOfJ_def flatAssumptions_def jsub_NaN)
  then show "year1GapAt nanPayInputs None None None (assumptionsOfJ flatAssumptions) None r = NaN"
    by (simp add: year1Gap_year1GapAt)
qed

text \<open>
  C3 (as amended). \<open>solveCouncilTaxIncrease\<close> bisects the bracket from 0 to 5 and tests
  exactly 20 midpoints, all strictly inside the bracket, whatever the gaps are. It returns
  the last midpoint recorded as best: a tested rate whose year-1 gap is not greater than 0,
  and the smallest tested rate with that property; that gap is at most 0 unless it is
  \<^verbatim>\<open>NaN\<close>. It returns null when every tested midpoint has a gap greater than 0, and at
  once when the engine gives no first row at a midpoint.
\<close>

theorem solveCouncilTaxIncrease_bisection:
  fixes inputs overrides shock dbt a pipeline
  defines "g \<equiv> year1GapAt inputs overrides shock dbt a pipeline"
    and "res \<equiv> solveCouncilTaxIncrease inputs overrides shock dbt a pipeline"
  defines "mids \<equiv> bisectMids g 20 0 5"
  shows "length mids = 20 \<and> (\<forall>m\<in>set mids. 0 < m \<and> m < 5) \<and>
         res = lastClosing g mids \<and>
         (\<forall>r. res = Some r \<longrightarrow>
            r \<in> set mids \<and> \<not> jgt (g r) (Fin 0) \<and> (g r \<noteq> NaN \<longrightarrow> jle (g r) (Fin 0)) \<and>
            (\<forall>m\<in>set mids. \<not> jgt (g m) (Fin 0) \<longrightarrow> r \<le> m)) \<and>
         (res = None \<longleftrightarrow> (\<forall>m\<in>set mids. jgt (g m) (Fin 0))) \<and>
         (\<forall>gapOf. gapOf (5 / 2) = None \<longrightarrow> solveLoop gapOf 0 0 5 None = None)"
proof -
  have len: "length mids = 20"
    by (simp add: mids_def length_bisectMids)
  have br: "\<forall>m\<in>set mids. 0 < m \<and> m < 5"
    using bisectMids_bracket [of 0 5 _ g 20] by (simp add: mids_def)
  have res: "res = lastClosing g mids"
    unfolding res_def g_def mids_def by (rule solveCouncilTaxIncrease_lastClosing)
  have small: "\<forall>r. res = Some r \<longrightarrow>
            r \<in> set mids \<and> \<not> jgt (g r) (Fin 0) \<and> (g r \<noteq> NaN \<longrightarrow> jle (g r) (Fin 0)) \<and>
            (\<forall>m\<in>set mids. \<not> jgt (g m) (Fin 0) \<longrightarrow> r \<le> m)"
    using lastClosing_smallest [of 0 5 g 20] by (auto simp add: res mids_def not_jgt_jle)
  have none: "res = None \<longleftrightarrow> (\<forall>m\<in>set mids. jgt (g m) (Fin 0))"
    by (simp add: res lastClosing_None)
  have norows: "\<forall>gapOf. gapOf (5 / 2) = None \<longrightarrow> solveLoop gapOf 0 0 5 None = None"
    by (simp add: solveLoop_no_rows)
  from len br res small none norows show ?thesis by blast
qed

theorem solveCouncilTaxIncrease_bisection_witness:
  "solveCouncilTaxIncrease (inputsJ flatInputs) None None None (assumptionsOfJ flatAssumptions) None =
     Some (1572865 / 524288) \<and>
   year1GapAt (inputsJ flatInputs) None None None (assumptionsOfJ flatAssumptions) None
     (1572865 / 524288) = Fin (- (1 / 524288)) \<and>
   jle (year1GapAt (inputsJ flatInputs) None None None (assumptionsOfJ flatAssumptions) None
     (1572865 / 524288)) (Fin 0) \<and>
   1572865 / 524288 \<in> set (bisectMids
     (year1GapAt (inputsJ flatInputs) None None None (assumptionsOfJ flatAssumptions) None) 20 0 5)"
proof -
  note g = year1GapAt_flat
  note th = solveCouncilTaxIncrease_bisection [of "inputsJ flatInputs" None None None
      "assumptionsOfJ flatAssumptions" None]
  have ev: "lastClosing (\<lambda>r. Fin (3 - r)) (bisectMids (\<lambda>r. Fin (3 - r)) 20 0 5) =
      Some (1572865 / 524288)"
    by (simp add: numeral_eq_Suc Let_def lastClosing_Cons lastClosing_Nil)
  have res: "solveCouncilTaxIncrease (inputsJ flatInputs) None None None
      (assumptionsOfJ flatAssumptions) None = Some (1572865 / 524288)"
    using th [THEN conjunct2, THEN conjunct2, THEN conjunct1] ev by (simp only: g)
  have v: "year1GapAt (inputsJ flatInputs) None None None (assumptionsOfJ flatAssumptions) None
      (1572865 / 524288) = Fin (- (1 / 524288))"
    by (simp add: g)
  have nn: "year1GapAt (inputsJ flatInputs) None None None (assumptionsOfJ flatAssumptions) None
      (1572865 / 524288) \<noteq> NaN"
    by (simp add: g)
  from th res nn
  have "1572865 / 524288 \<in> set (bisectMids
          (year1GapAt (inputsJ flatInputs) None None None (assumptionsOfJ flatAssumptions) None) 20 0 5) \<and>
        jle (year1GapAt (inputsJ flatInputs) None None None (assumptionsOfJ flatAssumptions) None
          (1572865 / 524288)) (Fin 0)"
    by blast
  with res v show ?thesis by blast
qed

text \<open>
  With a pay award of \<^verbatim>\<open>NaN\<close> every tested gap is \<^verbatim>\<open>NaN\<close>, every midpoint is recorded
  as best, and the solver returns \<open>5 / 2 ^ 20\<close>, a rate whose year-1 gap is not at most 0.
\<close>

theorem solveCouncilTaxIncrease_nan_counterexample:
  "solveCouncilTaxIncrease nanPayInputs None None None (assumptionsOfJ flatAssumptions) None =
     Some (5 / 1048576) \<and>
   year1GapAt nanPayInputs None None None (assumptionsOfJ flatAssumptions) None (5 / 1048576) = NaN \<and>
   \<not> jle (year1GapAt nanPayInputs None None None (assumptionsOfJ flatAssumptions) None (5 / 1048576))
        (Fin 0)"
proof -
  have ev: "lastClosing (\<lambda>r. NaN) (bisectMids (\<lambda>r. NaN) 20 0 5) = Some (5 / 1048576)"
    by (simp add: numeral_eq_Suc Let_def lastClosing_Cons lastClosing_Nil)
  have res: "solveCouncilTaxIncrease nanPayInputs None None None (assumptionsOfJ flatAssumptions) None =
     Some (5 / 1048576)"
    by (simp only: solveCouncilTaxIncrease_lastClosing year1GapAt_nanPay ev)
  have v: "year1GapAt nanPayInputs None None None (assumptionsOfJ flatAssumptions) None (5 / 1048576) = NaN"
    by (simp add: year1GapAt_nanPay)
  have "\<not> jle NaN (Fin 0)"
    by (simp add: jle_def)
  with res v show ?thesis by simp
qed

subsection \<open>What the validator accepts\<close>

lemma fieldRejected_iff: "fieldRejected f \<longleftrightarrow> \<not> fieldAccepted f"
proof (cases f)
  case None
  then show ?thesis by (simp add: fieldRejected_def fieldAccepted_def)
next
  case (Some v)
  then show ?thesis by (cases v) (simp_all add: fieldRejected_def fieldAccepted_def)
qed

lemma top_level_iff: "\<not> truthy data \<or> typeof data \<noteq> ''object'' \<longleftrightarrow> \<not> objectOrArray data"
  by (cases data) simp_all

text \<open>
  C4 (as amended). \<open>validateConfig\<close> answers \<open>valid = True\<close> exactly when the payload is an
  object or an array and each of its \<open>assumptions\<close> and \<open>inputs\<close> fields is absent, an
  object or an array, or a falsy value (\<^verbatim>\<open>null\<close>, \<^verbatim>\<open>false\<close>, 0, the empty string).
  Nothing inside the fields is examined.
\<close>

theorem validateConfig_shape_only:
  "valid (validateConfig data) \<longleftrightarrow>
     objectOrArray data \<and> fieldAccepted (getProp data ''assumptions'') \<and>
     fieldAccepted (getProp data ''inputs'')"
  by (simp only: validateConfig_def top_level_iff fieldRejected_iff)
     (simp split: if_splits)

theorem validateConfig_shape_only_witness:
  "valid (validateConfig (JObj [(''inputs'', JObj []), (''assumptions'', JObj [(''taxBase'', JStr ''many'')])])) \<and>
   \<not> valid (validateConfig (JStr ''bad'')) \<and>
   \<not> valid (validateConfig (JObj [(''inputs'', JNum 7)])) \<and>
   valid (validateConfig (JObj [(''inputs'', JNum 0)]))"
  by (simp add: validateConfig_shape_only fieldAccepted_def)

text \<open>
  An empty array, and a record whose \<open>assumptions\<close> is an array, are accepted although
  neither is a structured record with structured-record fields.
\<close>

theorem validateConfig_record_only_counterexample:
  "valid (validateConfig (JArr [])) \<and> \<not> specAccepts (JArr []) \<and>
   valid (validateConfig (JObj [(''assumptions'', JArr [])])) \<and>
   \<not> specAccepts (JObj [(''assumptions'', JArr [])])"
  by (simp add: validateConfig_def fieldRejected_def specAccepts_def)

subsection \<open>The stress test draws in a fixed order\<close>

lemma advance_eq: "advance t = roundToDouble (t + 0x6d2b79f5)"
  by (simp add: advance_def mulberry32_def Let_def)

lemma roundToDouble_exact: "\<bar>x\<bar> < 2 ^ 53 \<Longrightarrow> roundToDouble x = x"
  by (simp add: roundToDouble_def)

lemma counterAfter_Suc: "counterAfter s (k + 1) = advance (counterAfter s k)"
  by (simp add: counterAfter_def)

lemma counterAfter_exact:
  assumes "- (2 ^ 53) < s" and "s + int k * 0x6d2b79f5 < 2 ^ 53"
  shows "counterAfter s k = s + int k * 0x6d2b79f5"
  using assms(2)
proof (induction k)
  case 0
  show ?case by (simp add: counterAfter_def)
next
  case (Suc k)
  from Suc.prems have "s + int k * 0x6d2b79f5 < 2 ^ 53"
    by simp
  then have ih: "counterAfter s k = s + int k * 0x6d2b79f5"
    by (rule Suc.IH)
  have "\<bar>s + int k * 0x6d2b79f5 + 0x6d2b79f5\<bar> < 2 ^ 53"
    using assms(1) Suc.prems by simp
  then have "roundToDouble (s + int k * 0x6d2b79f5 + 0x6d2b79f5) = s + int k * 0x6d2b79f5 + 0x6d2b79f5"
    by (rule roundToDouble_exact)
  then have "advance (counterAfter s k) = s + int (Suc k) * 0x6d2b79f5"
    by (simp add: advance_eq ih algebra_simps)
  then show ?case
    using counterAfter_Suc [of s k] by simp
qed

lemma mulberry32_uniformAt:
  "mulberry32 (counterAfter s k) = (counterAfter s (k + 1), uniformAt s k)"
  by (simp add: prod_eq_iff counterAfter_def uniformAt_def advance_def)

lemma normalish_normalAt:
  "normalish (counterAfter s k) = (counterAfter s (k + 2), normalAt s k)"
proof -
  have "normalish (counterAfter s k) = (counterAfter s (k + 1 + 1), normalAt s k)"
    unfolding normalish_def mulberry32_uniformAt case_prod_conv normalAt_def ..
  then show ?thesis
    by (simp only: add.assoc one_add_one)
qed

lemma stressStep_simAt:
  "stressStep inputs overrides shock dbt a pipeline st (counterAfter (seed st) (8 * j)) =
   (simAt inputs overrides shock dbt a pipeline st j, counterAfter (seed st) (8 * (j + 1)))"
proof -
  have e: "8 * j + 2 + 2 + 2 + 2 = 8 * (j + 1)"
    by simp
  have "stressStep inputs overrides shock dbt a pipeline st (counterAfter (seed st) (8 * j)) =
        (simAt inputs overrides shock dbt a pipeline st j,
         counterAfter (seed st) (8 * j + 2 + 2 + 2 + 2))"
    unfolding stressStep_def normalish_normalAt case_prod_conv Let_def simAt_def tweakAt_def
    by (simp only: add.assoc semiring_norm)
  then show ?thesis
    unfolding e .
qed

lemma stressLoop_closed:
  assumes "i \<le> simulations st"
  shows "stressLoop inputs overrides shock dbt a pipeline st i (counterAfter (seed st) (8 * i)) results =
         (results @ map (simAt inputs overrides shock dbt a pipeline st) [i..<simulations st],
          counterAfter (seed st) (8 * simulations st))"
  using assms
proof (induction "simulations st - i" arbitrary: i results)
  case 0
  then have "i = simulations st" by simp
  then show ?case by (subst stressLoop.simps) simp
next
  case (Suc d)
  then have lt: "i < simulations st" and d: "d = simulations st - (i + 1)" and le: "i + 1 \<le> simulations st"
    by simp_all
  have up: "[i..<simulations st] = i # [i + 1..<simulations st]"
    using lt by (simp add: upt_conv_Cons)
  have "stressLoop inputs overrides shock dbt a pipeline st i (counterAfter (seed st) (8 * i)) results =
        stressLoop inputs overrides shock dbt a pipeline st (i + 1)
          (counterAfter (seed st) (8 * (i + 1)))
          (results @ [simAt inputs overrides shock dbt a pipeline st i])"
    by (subst stressLoop.simps) (simp only: lt if_True stressStep_simAt case_prod_conv)
  also have "\<dots> = ((results @ [simAt inputs overrides shock dbt a pipeline st i]) @
                   map (simAt inputs overrides shock dbt a pipeline st) [i + 1..<simulations st],
                   counterAfter (seed st) (8 * simulations st))"
    by (rule Suc.hyps(1) [OF d le])
  finally show ?case
    by (simp only: up list.map append_assoc append_Cons append_Nil)
qed

lemma stressLoop_run:
  "stressLoop inputs overrides shock dbt a pipeline st 0 (seed st) [] =
   (map (simAt inputs overrides shock dbt a pipeline st) [0..<simulations st],
    counterAfter (seed st) (8 * simulations st))"
  using stressLoop_closed [of 0 st inputs overrides shock dbt a pipeline "[]"]
  by (simp add: counterAfter_def)

lemma normalish_state: "fst (normalish t) = advance (advance t)"
  by (simp add: normalish_def advance_def split: prod.splits)

lemma stressStep_state:
  "snd (stressStep inputs overrides shock dbt a pipeline st t) = (advance ^^ 8) t"
proof -
  have n: "normalish u = (advance (advance u), snd (normalish u))" for u
    using normalish_state [of u] by (simp add: prod_eq_iff)
  have "snd (stressStep inputs overrides shock dbt a pipeline st t) =
        advance (advance (advance (advance (advance (advance (advance (advance t)))))))"
    unfolding stressStep_def
    by (subst n, simp only: case_prod_conv)+ (simp add: Let_def)
  then show ?thesis
    by (simp add: numeral_eq_Suc)
qed

lemma flatRows_outcome: "simOutcome flatRows = \<lparr> r_year1Gap = 3, r_year5Reserves = - 35 \<rparr>"
  by code_simp

lemma simAt_calm:
  "simAt flatInputs None None None flatAssumptions None calmStress j =
   \<lparr> r_year1Gap = 3, r_year5Reserves = - 35 \<rparr>"
proof -
  have "tweakAt flatInputs calmStress j = flatInputs"
    by (simp add: tweakAt_def calmStress_def flatInputs_def)
  then show ?thesis
    by (simp add: simAt_def flatRows_outcome [unfolded flatRows_def])
qed

lemma computeStressTest_summary:
  "computeStressTest inputs overrides shock dbt a pipeline st =
     \<lparr> p10Gap = pick (sort (map r_year1Gap (map (simAt inputs overrides shock dbt a pipeline st)
           [0..<simulations st]))) (1 / 10),
       p50Gap = pick (sort (map r_year1Gap (map (simAt inputs overrides shock dbt a pipeline st)
           [0..<simulations st]))) (5 / 10),
       p90Gap = pick (sort (map r_year1Gap (map (simAt inputs overrides shock dbt a pipeline st)
           [0..<simulations st]))) (9 / 10),
       p10Reserves = pick (sort (map r_year5Reserves (map (simAt inputs overrides shock dbt a pipeline st)
           [0..<simulations st]))) (1 / 10),
       p50Reserves = pick (sort (map r_year5Reserves (map (simAt inputs overrides shock dbt a pipeline st)
           [0..<simulations st]))) (5 / 10),
       p90Reserves = pick (sort (map r_year5Reserves (map (simAt inputs overrides shock dbt a pipeline st)
           [0..<simulations st]))) (9 / 10) \<rparr>"
  unfolding computeStressTest_def Let_def stressLoop_run fst_conv ..

text \<open>
  C5. A run of \<open>computeStressTest\<close> is fixed by the seed, the stress parameters and the
  scenario: its summary is the six percentiles of the simulations \<open>0, ..., n - 1\<close>, where
  simulation \<open>j\<close> perturbs council tax, pay, inflation and demand, in that order, with the
  normal variates made of the draws \<open>8 j\<close> to \<open>8 j + 7\<close> of the generator seeded with the
  seed, two draws to a variate. A normal variate advances the counter by two draws and a
  simulation by eight, and the run leaves the counter eight draws per simulation from the
  seed, which is the seed plus \<open>8 n\<close> increments while the counter is an exact integer. Two
  runs whose stress parameters agree field by field, on the same scenario, give the same
  summary.
\<close>

theorem stress_test_reproducible:
  fixes inputs overrides shock dbt a pipeline st
  defines "run \<equiv> stressRun inputs overrides shock dbt a pipeline st"
    and "sims \<equiv> map (simAt inputs overrides shock dbt a pipeline st) [0..<simulations st]"
  shows "computeStressTest inputs overrides shock dbt a pipeline st =
           \<lparr> p10Gap = pick (sort (map r_year1Gap sims)) (1 / 10),
             p50Gap = pick (sort (map r_year1Gap sims)) (5 / 10),
             p90Gap = pick (sort (map r_year1Gap sims)) (9 / 10),
             p10Reserves = pick (sort (map r_year5Reserves sims)) (1 / 10),
             p50Reserves = pick (sort (map r_year5Reserves sims)) (5 / 10),
             p90Reserves = pick (sort (map r_year5Reserves sims)) (9 / 10) \<rparr> \<and>
         fst run = sims \<and>
         snd run = counterAfter (seed st) (8 * simulations st) \<and>
         (\<forall>t. fst (normalish t) = (advance ^^ 2) t) \<and>
         (\<forall>t. snd (stressStep inputs overrides shock dbt a pipeline st t) = (advance ^^ 8) t) \<and>
         (- (2 ^ 53) < seed st \<and> seed st + int (8 * simulations st) * 0x6d2b79f5 < 2 ^ 53 \<longrightarrow>
            snd run = seed st + int (8 * simulations st) * 0x6d2b79f5) \<and>
         (\<forall>st'. seed st' = seed st \<and> simulations st' = simulations st \<and>
                inflationSigma st' = inflationSigma st \<and> demandSigma st' = demandSigma st \<and>
                paySigma st' = paySigma st \<and> ctSigma st' = ctSigma st \<longrightarrow>
                computeStressTest inputs overrides shock dbt a pipeline st' =
                computeStressTest inputs overrides shock dbt a pipeline st)"
proof -
  have summ: "computeStressTest inputs overrides shock dbt a pipeline st =
           \<lparr> p10Gap = pick (sort (map r_year1Gap sims)) (1 / 10),
             p50Gap = pick (sort (map r_year1Gap sims)) (5 / 10),
             p90Gap = pick (sort (map r_year1Gap sims)) (9 / 10),
             p10Reserves = pick (sort (map r_year5Reserves sims)) (1 / 10),
             p50Reserves = pick (sort (map r_year5Reserves sims)) (5 / 10),
             p90Reserves = pick (sort (map r_year5Reserves sims)) (9 / 10) \<rparr>"
    unfolding sims_def by (rule computeStressTest_summary)
  have res: "fst run = sims"
    by (simp add: run_def sims_def stressRun_def stressLoop_run)
  have fin: "snd run = counterAfter (seed st) (8 * simulations st)"
    by (simp add: run_def stressRun_def stressLoop_run)
  have two: "\<forall>t. fst (normalish t) = (advance ^^ 2) t"
    by (simp add: normalish_state numeral_eq_Suc)
  have eight: "\<forall>t. snd (stressStep inputs overrides shock dbt a pipeline st t) = (advance ^^ 8) t"
    by (simp only: stressStep_state simp_thms)
  have exact: "- (2 ^ 53) < seed st \<and> seed st + int (8 * simulations st) * 0x6d2b79f5 < 2 ^ 53 \<longrightarrow>
            snd run = seed st + int (8 * simulations st) * 0x6d2b79f5"
    using counterAfter_exact [of "seed st" "8 * simulations st"] by (simp only: fin) blast
  have det: "\<forall>st'. seed st' = seed st \<and> simulations st' = simulations st \<and>
                inflationSigma st' = inflationSigma st \<and> demandSigma st' = demandSigma st \<and>
                paySigma st' = paySigma st \<and> ctSigma st' = ctSigma st \<longrightarrow>
                computeStressTest inputs overrides shock dbt a pipeline st' =
                computeStressTest inputs overrides shock dbt a pipeline st"
  proof (intro allI impI)
    fix st' :: stress
    assume "seed st' = seed st \<and> simulations st' = simulations st \<and>
                inflationSigma st' = inflationSigma st \<and> demandSigma st' = demandSigma st \<and>
                paySigma st' = paySigma st \<and> ctSigma st' = ctSigma st"
    then have "st' = st" by simp
    then show "computeStressTest inputs overrides shock dbt a pipeline st' =
               computeStressTest inputs overrides shock dbt a pipeline st"
      by simp
  qed
  from summ res fin two eight exact det show ?thesis by blast
qed

theorem stress_test_reproducible_witness:
  "- (2 ^ 53) < seed defaultStress \<and>
   seed defaultStress + int (8 * simulations defaultStress) * 0x6d2b79f5 < 2 ^ 53 \<and>
   snd (stressRun baseline (Some defaultOverrides) (Some defaultFundingShock) (Some defaultDebt)
          initialState (Some defaultSavingsPipeline) defaultStress) = 12345 + 1600 * 1831565813 \<and>
   length (fst (stressRun baseline (Some defaultOverrides) (Some defaultFundingShock)
          (Some defaultDebt) initialState (Some defaultSavingsPipeline) defaultStress)) = 200 \<and>
   computeStressTest baseline (Some defaultOverrides) (Some defaultFundingShock) (Some defaultDebt)
      initialState (Some defaultSavingsPipeline)
      \<lparr> seed = 12345, simulations = 200, inflationSigma = 8 / 10, demandSigma = 12 / 10,
        paySigma = 7 / 10, ctSigma = 6 / 10 \<rparr> =
   computeStressTest baseline (Some defaultOverrides) (Some defaultFundingShock) (Some defaultDebt)
      initialState (Some defaultSavingsPipeline) defaultStress \<and>
   p10Gap (computeStressTest flatInputs None None None flatAssumptions None calmStress) = Some 3 \<and>
   mulberry32 12345 = (1831578158, 4207900869 / 4294967296) \<and>
   fst (mulberry32 9007199254740992) = 9007201086306804"
proof -
  note th = stress_test_reproducible [of baseline "Some defaultOverrides" "Some defaultFundingShock"
      "Some defaultDebt" initialState "Some defaultSavingsPipeline" defaultStress]
  note results = th [THEN conjunct2, THEN conjunct1]
  note exact = th [THEN conjunct2, THEN conjunct2, THEN conjunct2, THEN conjunct2, THEN conjunct2,
      THEN conjunct1, rule_format]
  note same = th [THEN conjunct2, THEN conjunct2, THEN conjunct2, THEN conjunct2, THEN conjunct2,
      THEN conjunct2, rule_format]
  have lo: "- (2 ^ 53) < seed defaultStress"
    by (simp add: defaultStress_def)
  have hi: "seed defaultStress + int (8 * simulations defaultStress) * 0x6d2b79f5 < 2 ^ 53"
    by (simp add: defaultStress_def)
  have "snd (stressRun baseline (Some defaultOverrides) (Some defaultFundingShock) (Some defaultDebt)
          initialState (Some defaultSavingsPipeline) defaultStress) =
        seed defaultStress + int (8 * simulations defaultStress) * 0x6d2b79f5"
    using lo hi by (intro exact conjI)
  then have fin: "snd (stressRun baseline (Some defaultOverrides) (Some defaultFundingShock) (Some defaultDebt)
          initialState (Some defaultSavingsPipeline) defaultStress) = 12345 + 1600 * 1831565813"
    by (simp add: defaultStress_def)
  have len: "length (fst (stressRun baseline (Some defaultOverrides) (Some defaultFundingShock)
          (Some defaultDebt) initialState (Some defaultSavingsPipeline) defaultStress)) = 200"
    unfolding results by (simp add: defaultStress_def)
  have det: "computeStressTest baseline (Some defaultOverrides) (Some defaultFundingShock) (Some defaultDebt)
      initialState (Some defaultSavingsPipeline)
      \<lparr> seed = 12345, simulations = 200, inflationSigma = 8 / 10, demandSigma = 12 / 10,
        paySigma = 7 / 10, ctSigma = 6 / 10 \<rparr> =
   computeStressTest baseline (Some defaultOverrides) (Some defaultFundingShock) (Some defaultDebt)
      initialState (Some defaultSavingsPipeline) defaultStress"
    by (rule same) (simp add: defaultStress_def)
  note calm = stress_test_reproducible [of flatInputs None None None flatAssumptions None calmStress,
      THEN conjunct1]
  have three: "[0..<simulations calmStress] = [0, 1, 2]"
    by (simp add: calmStress_def upt_conv_Cons)
  have gaps: "sort (map r_year1Gap (map (simAt flatInputs None None None flatAssumptions None calmStress)
      [0..<simulations calmStress])) = [3, 3, 3]"
    unfolding three by (simp add: simAt_calm)
  have "p10Gap (computeStressTest flatInputs None None None flatAssumptions None calmStress) =
      pick (sort (map r_year1Gap (map (simAt flatInputs None None None flatAssumptions None calmStress)
        [0..<simulations calmStress]))) (1 / 10)"
    by (subst calm) (simp only: summary.select_convs)
  also have "\<dots> = pick [3, 3, 3] (1 / 10)"
    by (simp only: gaps)
  also have "\<dots> = Some 3"
    by (simp add: pick_def)
  finally have p10: "p10Gap (computeStressTest flatInputs None None None flatAssumptions None calmStress) = Some 3" .
  have draw: "mulberry32 12345 = (1831578158, 4207900869 / 4294967296)"
    by (simp add: mulberry32_def roundToDouble_def Let_def)
  have big: "fst (mulberry32 9007199254740992) = 9007201086306804"
    unfolding mulberry32_def Let_def fst_conv by code_simp
  from lo hi fin len det p10 draw big show ?thesis by blast
qed

subsection \<open>Percentiles of the stress test\<close>

lemma pick_in_range:
  assumes "0 \<le> p" and "p \<le> 1" and "arr \<noteq> []"
  shows "pick arr p = Some (arr ! nat \<lfloor>p * (real (length arr) - 1)\<rfloor>) \<and>
         nat \<lfloor>p * (real (length arr) - 1)\<rfloor> < length arr"
proof -
  from assms(3) have n: "1 \<le> real (length arr)"
    by (cases arr) simp_all
  then have nn: "0 \<le> p * (real (length arr) - 1)"
    using assms(1) by simp
  have "p * (real (length arr) - 1) \<le> 1 * (real (length arr) - 1)"
    using assms(2) n by (intro mult_right_mono) simp_all
  then have "p * (real (length arr) - 1) < real (length arr)"
    by simp
  then have up: "\<lfloor>p * (real (length arr) - 1)\<rfloor> < int (length arr)"
    by (simp add: floor_less_iff)
  from nn have lo: "0 \<le> \<lfloor>p * (real (length arr) - 1)\<rfloor>"
    by simp
  from lo up have "nat \<lfloor>p * (real (length arr) - 1)\<rfloor> < length arr"
    by linarith
  with lo up show ?thesis
    by (simp add: pick_def Let_def)
qed

lemma pick_empty: "pick [] p = None"
  by (simp add: pick_def)

text \<open>
  C6. The summary sorts the year-1 gaps and the year-5 reserves of the \<open>n\<close> simulations
  ascending and, for \<open>n > 0\<close>, reads the percentiles 0.10, 0.50 and 0.90 of each at index
  \<open>\<lfloor>p * (n - 1)\<rfloor>\<close>, which lies inside the vector.
\<close>

theorem stress_summary_percentiles:
  fixes inputs overrides shock dbt a pipeline st
  defines "results \<equiv> fst (stressRun inputs overrides shock dbt a pipeline st)"
    and "s \<equiv> computeStressTest inputs overrides shock dbt a pipeline st"
    and "n \<equiv> simulations st"
  defines "gaps \<equiv> sort (map r_year1Gap results)"
    and "res \<equiv> sort (map r_year5Reserves results)"
  shows "length results = n \<and>
         sorted gaps \<and> mset gaps = mset (map r_year1Gap results) \<and>
         sorted res \<and> mset res = mset (map r_year5Reserves results) \<and>
         (0 < n \<longrightarrow>
            p10Gap s = Some (gaps ! nat \<lfloor>1 / 10 * (real n - 1)\<rfloor>) \<and>
            p50Gap s = Some (gaps ! nat \<lfloor>5 / 10 * (real n - 1)\<rfloor>) \<and>
            p90Gap s = Some (gaps ! nat \<lfloor>9 / 10 * (real n - 1)\<rfloor>) \<and>
            p10Reserves s = Some (res ! nat \<lfloor>1 / 10 * (real n - 1)\<rfloor>) \<and>
            p50Reserves s = Some (res ! nat \<lfloor>5 / 10 * (real n - 1)\<rfloor>) \<and>
            p90Reserves s = Some (res ! nat \<lfloor>9 / 10 * (real n - 1)\<rfloor>) \<and>
            nat \<lfloor>1 / 10 * (real n - 1)\<rfloor> < n \<and> nat \<lfloor>5 / 10 * (real n - 1)\<rfloor> < n \<and>
            nat \<lfloor>9 / 10 * (real n - 1)\<rfloor> < n)"
proof -
  have len: "length results = n"
    by (simp add: results_def n_def stressRun_def stressLoop_run)
  have lg: "length gaps = n" and lr: "length res = n"
    by (simp_all add: gaps_def res_def len)
  have srt: "sorted gaps" "mset gaps = mset (map r_year1Gap results)"
    "sorted res" "mset res = mset (map r_year5Reserves results)"
    by (simp_all add: gaps_def res_def)
  have s: "s = \<lparr> p10Gap = pick gaps (1 / 10), p50Gap = pick gaps (5 / 10),
           p90Gap = pick gaps (9 / 10), p10Reserves = pick res (1 / 10),
           p50Reserves = pick res (5 / 10), p90Reserves = pick res (9 / 10) \<rparr>"
    unfolding s_def computeStressTest_def Let_def gaps_def res_def results_def stressRun_def ..
  have pk: "0 < n \<longrightarrow>
            p10Gap s = Some (gaps ! nat \<lfloor>1 / 10 * (real n - 1)\<rfloor>) \<and>
            p50Gap s = Some (gaps ! nat \<lfloor>5 / 10 * (real n - 1)\<rfloor>) \<and>
            p90Gap s = Some (gaps ! nat \<lfloor>9 / 10 * (real n - 1)\<rfloor>) \<and>
            p10Reserves s = Some (res ! nat \<lfloor>1 / 10 * (real n - 1)\<rfloor>) \<and>
            p50Reserves s = Some (res ! nat \<lfloor>5 / 10 * (real n - 1)\<rfloor>) \<and>
            p90Reserves s = Some (res ! nat \<lfloor>9 / 10 * (real n - 1)\<rfloor>) \<and>
            nat \<lfloor>1 / 10 * (real n - 1)\<rfloor> < n \<and> nat \<lfloor>5 / 10 * (real n - 1)\<rfloor> < n \<and>
            nat \<lfloor>9 / 10 * (real n - 1)\<rfloor> < n"
  proof
    assume pos: "0 < n"
    then have ne: "gaps \<noteq> []" "res \<noteq> []"
      using lg lr by auto
    have g: "pick gaps p = Some (gaps ! nat \<lfloor>p * (real n - 1)\<rfloor>) \<and> nat \<lfloor>p * (real n - 1)\<rfloor> < n"
      if "0 \<le> p" "p \<le> 1" for p
      using pick_in_range [OF that ne(1)] by (simp only: lg)
    have r: "pick res p = Some (res ! nat \<lfloor>p * (real n - 1)\<rfloor>)"
      if "0 \<le> p" "p \<le> 1" for p
      using pick_in_range [OF that ne(2)] by (simp only: lr)
    have "p10Gap s = pick gaps (1 / 10)" "p50Gap s = pick gaps (5 / 10)"
      "p90Gap s = pick gaps (9 / 10)" "p10Reserves s = pick res (1 / 10)"
      "p50Reserves s = pick res (5 / 10)" "p90Reserves s = pick res (9 / 10)"
      by (subst s, simp)+
    with g [of "1 / 10"] g [of "5 / 10"] g [of "9 / 10"] r [of "1 / 10"] r [of "5 / 10"] r [of "9 / 10"]
    show "p10Gap s = Some (gaps ! nat \<lfloor>1 / 10 * (real n - 1)\<rfloor>) \<and>
            p50Gap s = Some (gaps ! nat \<lfloor>5 / 10 * (real n - 1)\<rfloor>) \<and>
            p90Gap s = Some (gaps ! nat \<lfloor>9 / 10 * (real n - 1)\<rfloor>) \<and>
            p10Reserves s = Some (res ! nat \<lfloor>1 / 10 * (real n - 1)\<rfloor>) \<and>
            p50Reserves s = Some (res ! nat \<lfloor>5 / 10 * (real n - 1)\<rfloor>) \<and>
            p90Reserves s = Some (res ! nat \<lfloor>9 / 10 * (real n - 1)\<rfloor>) \<and>
            nat \<lfloor>1 / 10 * (real n - 1)\<rfloor> < n \<and> nat \<lfloor>5 / 10 * (real n - 1)\<rfloor> < n \<and>
            nat \<lfloor>9 / 10 * (real n - 1)\<rfloor> < n"
      by simp
  qed
  from len srt pk show ?thesis by blast
qed

theorem stress_summary_percentiles_witness:
  "0 < simulations calmStress \<and>
   computeStressTest flatInputs None None None flatAssumptions None calmStress =
     \<lparr> p10Gap = Some 3, p50Gap = Some 3, p90Gap = Some 3,
       p10Reserves = Some (- 35), p50Reserves = Some (- 35), p90Reserves = Some (- 35) \<rparr> \<and>
   nat \<lfloor>9 / 10 * (real (simulations calmStress) - 1)\<rfloor> = 1"
proof -
  note th = stress_summary_percentiles [of flatInputs None None None flatAssumptions None calmStress]
  have n: "simulations calmStress = 3"
    by (simp add: calmStress_def)
  have results: "fst (stressRun flatInputs None None None flatAssumptions None calmStress) =
      replicate 3 \<lparr> r_year1Gap = 3, r_year5Reserves = - 35 \<rparr>"
  proof -
    have "[0..<3::nat] = [0, 1, 2]"
      by (simp add: upt_conv_Cons)
    then show ?thesis
      by (simp add: stressRun_def stressLoop_run n simAt_calm numeral_3_eq_3)
  qed
  have g: "sort (map r_year1Gap (fst (stressRun flatInputs None None None flatAssumptions None calmStress))) = [3, 3, 3]"
    by (simp add: results numeral_eq_Suc)
  have r: "sort (map r_year5Reserves (fst (stressRun flatInputs None None None flatAssumptions None calmStress))) = [- 35, - 35, - 35]"
    by (simp add: results numeral_eq_Suc)
  have i: "nat \<lfloor>1 / 10 * (real (3::nat) - 1)\<rfloor> = 0" "nat \<lfloor>5 / 10 * (real (3::nat) - 1)\<rfloor> = 1"
    "nat \<lfloor>9 / 10 * (real (3::nat) - 1)\<rfloor> = 1"
    by simp_all
  have fields: "p10Gap (computeStressTest flatInputs None None None flatAssumptions None calmStress) = Some 3"
    "p50Gap (computeStressTest flatInputs None None None flatAssumptions None calmStress) = Some 3"
    "p90Gap (computeStressTest flatInputs None None None flatAssumptions None calmStress) = Some 3"
    "p10Reserves (computeStressTest flatInputs None None None flatAssumptions None calmStress) = Some (- 35)"
    "p50Reserves (computeStressTest flatInputs None None None flatAssumptions None calmStress) = Some (- 35)"
    "p90Reserves (computeStressTest flatInputs None None None flatAssumptions None calmStress) = Some (- 35)"
    using th unfolding g r n i by simp_all
  have "computeStressTest flatInputs None None None flatAssumptions None calmStress =
     \<lparr> p10Gap = Some 3, p50Gap = Some 3, p90Gap = Some 3,
       p10Reserves = Some (- 35), p50Reserves = Some (- 35), p90Reserves = Some (- 35) \<rparr>"
    by (rule summary.equality) (simp_all add: fields)
  with n i show ?thesis by simp
qed

text \<open>
  C9. With a simulation count of 0 the six summary fields are all undefined.
\<close>

theorem stress_zero_simulations:
  assumes "simulations st = 0"
  shows "computeStressTest inputs overrides shock dbt a pipeline st =
         \<lparr> p10Gap = None, p50Gap = None, p90Gap = None,
           p10Reserves = None, p50Reserves = None, p90Reserves = None \<rparr>"
proof -
  have "fst (stressLoop inputs overrides shock dbt a pipeline st 0 (seed st) []) = []"
    using assms by (simp add: stressLoop_run)
  then show ?thesis
    by (simp add: computeStressTest_def pick_empty)
qed

theorem stress_zero_simulations_witness:
  "simulations (defaultStress\<lparr>simulations := 0\<rparr>) = 0 \<and>
   computeStressTest baseline (Some defaultOverrides) (Some defaultFundingShock) (Some defaultDebt)
      initialState (Some defaultSavingsPipeline) (defaultStress\<lparr>simulations := 0\<rparr>) =
     \<lparr> p10Gap = None, p50Gap = None, p90Gap = None,
       p10Reserves = None, p50Reserves = None, p90Reserves = None \<rparr>"
proof -
  have z: "simulations (defaultStress\<lparr>simulations := 0\<rparr>) = 0"
    by simp
  from z stress_zero_simulations [OF z] show ?thesis by blast
qed

subsection \<open>Parts of the workbook package\<close>

lemma map_fst_objSet:
  "map fst (objSet obj k v) = (if k \<in> set (map fst obj) then map fst obj else map fst obj @ [k])"
  by (induction obj) force+

lemma worksheetPart_values:
  "worksheetPart 0 = ''xl/worksheets/sheet1.xml''"
  "worksheetPart 1 = ''xl/worksheets/sheet2.xml''"
  "worksheetPart 2 = ''xl/worksheets/sheet3.xml''"
  "worksheetPart 3 = ''xl/worksheets/sheet4.xml''"
  "worksheetPart 4 = ''xl/worksheets/sheet5.xml''"
  "worksheetPart 5 = ''xl/worksheets/sheet6.xml''"
  "worksheetPart 6 = ''xl/worksheets/sheet7.xml''"
  "worksheetPart (Suc 0) = ''xl/worksheets/sheet2.xml''"
  by code_simp+

lemma map_snd_enumerate_fun: "map (\<lambda>x. f (snd x)) (enumerate n xs) = map f xs"
  by (induction xs arbitrary: n) simp_all

lemma sheetNames:
  "map sheetName (buildSheets rows mt) =
     (case mt of
        None \<Rightarrow> [''Projections'']
      | Some m \<Rightarrow> [''Projections'', ''Scenario'', ''Assumptions'', ''Savings'', ''Overrides'',
                   ''Governance'', ''Stress''])"
  by (simp add: buildSheets_def scenarioSheet_def assumptionsSheet_def savingsSheet_def
      overridesSheet_def governanceSheet_def stressSheet_def split: option.splits)

lemma sheetEntries_index:
  "map se_index (sheetEntries numStr sheets) = [0..<length sheets]"
  by (simp add: sheetEntries_def comp_def case_prod_unfold)

lemma foldl_objSet_keys:
  assumes "distinct (map f es)" and "set (map f es) \<inter> set (map fst init) = {}"
  shows "map fst (foldl (\<lambda>obj e. objSet obj (f e) (g e)) init es) = map fst init @ map f es"
  using assms
proof (induction es arbitrary: init)
  case Nil
  show ?case by simp
next
  case (Cons e es)
  from Cons.prems have new: "f e \<notin> set (map fst init)"
    by auto
  then have keys: "map fst (objSet init (f e) (g e)) = map fst init @ [f e]"
    by (simp add: map_fst_objSet)
  from Cons.prems have d: "distinct (map f es)"
    by simp
  from Cons.prems have "set (map f es) \<inter> set (map fst init @ [f e]) = {}"
    by auto
  then have "set (map f es) \<inter> set (map fst (objSet init (f e) (g e))) = {}"
    by (simp only: keys)
  from Cons.IH [OF d this] show ?case
    by (simp add: keys)
qed

lemma upt_seven: "[0..<7] = [0, 1, 2, 3, 4, 5, 6::nat]"
  by (simp add: upt_conv_Cons)

lemma worksheetParts_distinct: "distinct (map worksheetPart [0..<7])"
  by (simp add: upt_seven worksheetPart_values)

lemma worksheetParts_fresh: "set (map worksheetPart [0..<7]) \<inter> set fixedParts = {}"
  by (simp add: upt_seven worksheetPart_values fixedParts_def)

lemma zipEntries_parts:
  assumes "length sheets \<le> 7"
  shows "map fst (zipEntries (sheetEntries numStr sheets)) =
         fixedParts @ map worksheetPart [0..<length sheets]"
proof -
  let ?es = "sheetEntries numStr sheets"
  have names: "map sheetPartName ?es = map worksheetPart [0..<length sheets]"
  proof -
    have "map sheetPartName ?es = map worksheetPart (map se_index ?es)"
      by (simp add: sheetPartName_def worksheetPart_def comp_def)
    then show ?thesis
      by (simp only: sheetEntries_index)
  qed
  have pre: "map worksheetPart [0..<length sheets] = take (length sheets) (map worksheetPart [0..<7])"
    using assms by (simp add: take_map)
  have d: "distinct (map sheetPartName ?es)"
    unfolding names pre by (rule distinct_take) (rule worksheetParts_distinct)
  have "set (take (length sheets) (map worksheetPart [0..<7])) \<subseteq> set (map worksheetPart [0..<7])"
    by (rule set_take_subset)
  with worksheetParts_fresh have fresh: "set (map sheetPartName ?es) \<inter> set fixedParts = {}"
    unfolding names pre by blast
  define init where "init =
      [ (''[Content_Types].xml'', strToU8 (contentTypes ?es)),
        (''_rels/.rels'', strToU8 rels),
        (''xl/workbook.xml'', strToU8 (workbook ?es)),
        (''xl/_rels/workbook.xml.rels'', strToU8 (workbookRels ?es)) ]"
  have init: "map fst init = fixedParts"
    by (simp add: init_def fixedParts_def)
  from fresh have fresh': "set (map sheetPartName ?es) \<inter> set (map fst init) = {}"
    by (simp only: init)
  have "map fst (foldl (\<lambda>obj e. objSet obj (sheetPartName e) (strToU8 (se_xml e))) init ?es) =
        map fst init @ map sheetPartName ?es"
    using d fresh' by (rule foldl_objSet_keys)
  then show ?thesis
    unfolding zipEntries_def init_def [symmetric] by (simp only: init names)
qed

lemma buildSheets_length: "length (buildSheets rows mt) = (case mt of None \<Rightarrow> 1 | Some m \<Rightarrow> 7)"
  by (simp add: buildSheets_def split: option.splits)

text \<open>
  C8. \<open>buildXlsxBinary\<close> hands the archive writer a part list that is exactly the
  content-types manifest, the root relationships, the workbook, the workbook relationships
  and one worksheet part per sheet, numbered from 1 in the order of the sheets. The sheets
  are Projections alone without metadata, and Projections, Scenario, Assumptions, Savings,
  Overrides, Governance, Stress with it.
\<close>

theorem xlsx_part_list:
  "buildXlsxBinary numStr zipSync rows mt = zipSync (xlsxEntries numStr rows mt) \<and>
   map fst (xlsxEntries numStr rows mt) =
     [''[Content_Types].xml'', ''_rels/.rels'', ''xl/workbook.xml'', ''xl/_rels/workbook.xml.rels'']
     @ map worksheetPart [0..<length (buildSheets rows mt)] \<and>
   map se_name (sheetEntries numStr (buildSheets rows mt)) =
     (case mt of
        None \<Rightarrow> [''Projections'']
      | Some m \<Rightarrow> [''Projections'', ''Scenario'', ''Assumptions'', ''Savings'', ''Overrides'',
                   ''Governance'', ''Stress''])"
proof -
  have "length (buildSheets rows mt) \<le> 7"
    by (simp add: buildSheets_length split: option.splits)
  then have parts: "map fst (xlsxEntries numStr rows mt) =
     [''[Content_Types].xml'', ''_rels/.rels'', ''xl/workbook.xml'', ''xl/_rels/workbook.xml.rels'']
     @ map worksheetPart [0..<length (buildSheets rows mt)]"
    unfolding xlsxEntries_def by (simp only: zipEntries_parts fixedParts_def)
  have "map se_name (sheetEntries numStr (buildSheets rows mt)) = map sheetName (buildSheets rows mt)"
    by (simp add: sheetEntries_def comp_def case_prod_unfold map_snd_enumerate_fun)
  with sheetNames [of rows mt] parts show ?thesis
    by (simp add: buildXlsxBinary_def)
qed

theorem xlsx_part_list_witness:
  "map fst (buildXlsxBinary wholeNumber (\<lambda>entries. entries) defaultRows None) =
     [''[Content_Types].xml'', ''_rels/.rels'', ''xl/workbook.xml'', ''xl/_rels/workbook.xml.rels'',
      ''xl/worksheets/sheet1.xml''] \<and>
   map fst (buildXlsxBinary wholeNumber (\<lambda>entries. entries) defaultRows (Some emptyMeta)) =
     [''[Content_Types].xml'', ''_rels/.rels'', ''xl/workbook.xml'', ''xl/_rels/workbook.xml.rels'',
      ''xl/worksheets/sheet1.xml'', ''xl/worksheets/sheet2.xml'', ''xl/worksheets/sheet3.xml'',
      ''xl/worksheets/sheet4.xml'', ''xl/worksheets/sheet5.xml'', ''xl/worksheets/sheet6.xml'',
      ''xl/worksheets/sheet7.xml''] \<and>
   map se_name (sheetEntries wholeNumber (buildSheets defaultRows (Some emptyMeta))) =
     [''Projections'', ''Scenario'', ''Assumptions'', ''Savings'', ''Overrides'', ''Governance'',
      ''Stress'']"
proof -
  note none = xlsx_part_list [of wholeNumber "\<lambda>entries. entries" defaultRows None]
  note some = xlsx_part_list [of wholeNumber "\<lambda>entries. entries" defaultRows "Some emptyMeta"]
  from none have a: "map fst (buildXlsxBinary wholeNumber (\<lambda>entries. entries) defaultRows None) =
     [''[Content_Types].xml'', ''_rels/.rels'', ''xl/workbook.xml'', ''xl/_rels/workbook.xml.rels'',
      ''xl/worksheets/sheet1.xml'']"
    by (simp add: buildSheets_length worksheetPart_values)
  from some have b: "map fst (buildXlsxBinary wholeNumber (\<lambda>entries. entries) defaultRows (Some emptyMeta)) =
     [''[Content_Types].xml'', ''_rels/.rels'', ''xl/workbook.xml'', ''xl/_rels/workbook.xml.rels'',
      ''xl/worksheets/sheet1.xml'', ''xl/worksheets/sheet2.xml'', ''xl/worksheets/sheet3.xml'',
      ''xl/worksheets/sheet4.xml'', ''xl/worksheets/sheet5.xml'', ''xl/worksheets/sheet6.xml'',
      ''xl/worksheets/sheet7.xml'']"
    by (simp add: buildSheets_length upt_seven worksheetPart_values)
  from some have c: "map se_name (sheetEntries wholeNumber (buildSheets defaultRows (Some emptyMeta))) =
     [''Projections'', ''Scenario'', ''Assumptions'', ''Savings'', ''Overrides'', ''Governance'',
      ''Stress'']"
    by simp
  from a b c show ?thesis by blast
qed

end
